theory Spec2Isabelle
  imports Complex_Main "HOL-Library.Word" "HOL-Library.Log_Nat"
begin

section \<open>JavaScript values\<close>

text \<open>
  The sources are TypeScript; at run time every \<^verbatim>\<open>number\<close> is a JavaScript number, a
  double. A number is modelled as the real it denotes, and an operation whose result
  need not be a double rounds it to the nearest double (\<open>to_double\<close>, below): the
  subtractions and multiplications of \<^verbatim>\<open>getTransformFeedbackOutputCount\<close> and the value
  of \<^verbatim>\<open>parseInt\<close>. The quotients of \<^verbatim>\<open>getTransformFeedbackPrimitiveCount\<close> and
  \<^verbatim>\<open>getAttributeIndex\<close>, which divide with the non-truncating \<^verbatim>\<open>/\<close>, are kept as
  the exact quotients: exact on every quotient by two, and a stand-in for the rounded
  double on a quotient by three, which is not an integer either way. Indices into
  paths, struct members and arrays are integers.
\<close>

type_synonym number = real

text \<open>
  \<^verbatim>\<open>a % b\<close>: the remainder takes the sign of the dividend, \<^verbatim>\<open>a - b * trunc(a / b)\<close>.
  The divisors in the sources are the literals 2 and 3, so the NaN of a zero divisor
  never arises.
\<close>

definition js_trunc :: "number \<Rightarrow> int" where
  "js_trunc x = (if 0 \<le> x then \<lfloor>x\<rfloor> else \<lceil>x\<rceil>)"

definition js_rem :: "number \<Rightarrow> number \<Rightarrow> number" where
  "js_rem a b = a - b * of_int (js_trunc (a / b))"

text \<open>
  Rounding to the nearest double, ties to even. \<open>double_exponent x\<close> is the integer
  \<open>e\<close> with \<open>2^e \<le> |x| < 2^(e+1)\<close>; a double has 53 significant bits, so its last
  place is \<open>2^(e - 52)\<close>, and \<open>2^(-1074)\<close> for a subnormal. The remainder \<^verbatim>\<open>%\<close> and
  \<^verbatim>\<open>Math.max\<close> of doubles are exact. Overflow to \<^verbatim>\<open>Infinity\<close> (beyond about
  \<open>1.8 * 10^308\<close>) is outside the model.
\<close>

definition double_exponent :: "real \<Rightarrow> int" where
  "double_exponent x =
     (if 1 \<le> \<bar>x\<bar> then bitlen \<lfloor>\<bar>x\<bar>\<rfloor> - 1 else - bitlen (\<lceil>1 / \<bar>x\<bar>\<rceil> - 1))"

definition pow2 :: "int \<Rightarrow> real" where
  "pow2 k = (if 0 \<le> k then 2 ^ nat k else 1 / 2 ^ nat (- k))"

definition round_ties_even :: "real \<Rightarrow> int" where
  "round_ties_even x =
     (if x - of_int \<lfloor>x\<rfloor> < 1 / 2 then \<lfloor>x\<rfloor>
      else if 1 / 2 < x - of_int \<lfloor>x\<rfloor> then \<lfloor>x\<rfloor> + 1
      else if even \<lfloor>x\<rfloor> then \<lfloor>x\<rfloor> else \<lfloor>x\<rfloor> + 1)"

definition double_ulp :: "real \<Rightarrow> real" where
  "double_ulp x = pow2 (max (double_exponent x - 52) (- 1074))"

definition to_double :: "real \<Rightarrow> number" where
  "to_double x =
     (if x = 0 then 0 else of_int (round_ties_even (x / double_ulp x)) * double_ulp x)"

text \<open>Every \<^verbatim>\<open>throw\<close> of the modelled sources is a value of this type.\<close>

datatype error =
    AssertFailed
  | TypeIsInvalid
  | NotAMatrixOrAVector
  | EmptyError
  | JsTypeError
  | JsRangeError
  | UnrecognizedDataType int
  | UnrecognizedType
  | UnrecognizedPrimitiveType
  | NoMoreTokens
  | UnexpectedCharacter
  | NotAnIdentifier
  | InvalidFieldSelector
  | MemberNotFound string
  | InvalidSubscript
  | ExpectedRightBracket
  | UnexpectedToken
  | IsntAMatrix
  | IsntAVector
  | IsntAnArray
  | IsntAStruct
  | CantExpandScalars
  | FirstTypeAlreadyExpanded
  | InvalidTypeInComponentPath
  | NotSupported
  | CapturingArraysNotSupported
  | LinkFailed
  | CompileFailed

section \<open>gluShaderUtil\<close>

text \<open>
  \<^verbatim>\<open>DataType\<close> is a TypeScript numeric enum, and the code does arithmetic on its members
  (\<^verbatim>\<open>getDataTypeVector\<close> returns \<^verbatim>\<open>scalarType + size - 1\<close>), so a data type is its
  number. \<^verbatim>\<open>INT\<close> is written \<open>INT'\<close>.
\<close>

type_synonym DataType = int

definition INVALID :: DataType where [simp]: "INVALID = 0"
definition FLOAT :: DataType where [simp]: "FLOAT = 1"
definition FLOAT_VEC2 :: DataType where [simp]: "FLOAT_VEC2 = 2"
definition FLOAT_VEC3 :: DataType where [simp]: "FLOAT_VEC3 = 3"
definition FLOAT_VEC4 :: DataType where [simp]: "FLOAT_VEC4 = 4"
definition FLOAT_MAT2 :: DataType where [simp]: "FLOAT_MAT2 = 5"
definition FLOAT_MAT2X3 :: DataType where [simp]: "FLOAT_MAT2X3 = 6"
definition FLOAT_MAT2X4 :: DataType where [simp]: "FLOAT_MAT2X4 = 7"
definition FLOAT_MAT3X2 :: DataType where [simp]: "FLOAT_MAT3X2 = 8"
definition FLOAT_MAT3 :: DataType where [simp]: "FLOAT_MAT3 = 9"
definition FLOAT_MAT3X4 :: DataType where [simp]: "FLOAT_MAT3X4 = 10"
definition FLOAT_MAT4X2 :: DataType where [simp]: "FLOAT_MAT4X2 = 11"
definition FLOAT_MAT4X3 :: DataType where [simp]: "FLOAT_MAT4X3 = 12"
definition FLOAT_MAT4 :: DataType where [simp]: "FLOAT_MAT4 = 13"
definition INT' :: DataType where [simp]: "INT' = 14"
definition INT_VEC2 :: DataType where [simp]: "INT_VEC2 = 15"
definition INT_VEC3 :: DataType where [simp]: "INT_VEC3 = 16"
definition INT_VEC4 :: DataType where [simp]: "INT_VEC4 = 17"
definition UINT :: DataType where [simp]: "UINT = 18"
definition UINT_VEC2 :: DataType where [simp]: "UINT_VEC2 = 19"
definition UINT_VEC3 :: DataType where [simp]: "UINT_VEC3 = 20"
definition UINT_VEC4 :: DataType where [simp]: "UINT_VEC4 = 21"
definition BOOL :: DataType where [simp]: "BOOL = 22"
definition BOOL_VEC2 :: DataType where [simp]: "BOOL_VEC2 = 23"
definition BOOL_VEC3 :: DataType where [simp]: "BOOL_VEC3 = 24"
definition BOOL_VEC4 :: DataType where [simp]: "BOOL_VEC4 = 25"
definition SAMPLER_2D :: DataType where [simp]: "SAMPLER_2D = 26"
definition SAMPLER_CUBE :: DataType where [simp]: "SAMPLER_CUBE = 27"
definition SAMPLER_2D_ARRAY :: DataType where [simp]: "SAMPLER_2D_ARRAY = 28"
definition SAMPLER_3D :: DataType where [simp]: "SAMPLER_3D = 29"
definition SAMPLER_2D_SHADOW :: DataType where [simp]: "SAMPLER_2D_SHADOW = 30"
definition SAMPLER_CUBE_SHADOW :: DataType where [simp]: "SAMPLER_CUBE_SHADOW = 31"
definition SAMPLER_2D_ARRAY_SHADOW :: DataType where [simp]: "SAMPLER_2D_ARRAY_SHADOW = 32"
definition INT_SAMPLER_2D :: DataType where [simp]: "INT_SAMPLER_2D = 33"
definition INT_SAMPLER_CUBE :: DataType where [simp]: "INT_SAMPLER_CUBE = 34"
definition INT_SAMPLER_2D_ARRAY :: DataType where [simp]: "INT_SAMPLER_2D_ARRAY = 35"
definition INT_SAMPLER_3D :: DataType where [simp]: "INT_SAMPLER_3D = 36"
definition UINT_SAMPLER_2D :: DataType where [simp]: "UINT_SAMPLER_2D = 37"
definition UINT_SAMPLER_CUBE :: DataType where [simp]: "UINT_SAMPLER_CUBE = 38"
definition UINT_SAMPLER_2D_ARRAY :: DataType where [simp]: "UINT_SAMPLER_2D_ARRAY = 39"
definition UINT_SAMPLER_3D :: DataType where [simp]: "UINT_SAMPLER_3D = 40"
definition LAST :: DataType where [simp]: "LAST = 41"

datatype precision = PRECISION_LOWP | PRECISION_MEDIUMP | PRECISION_HIGHP | PRECISION_LAST

text \<open>
  A \<^verbatim>\<open>switch\<close> over an enum whose cases return: the cases as a table, and the error
  thrown after the switch when no case matches.
\<close>

definition switch :: "('k \<times> 'v) list \<Rightarrow> 'k \<Rightarrow> error \<Rightarrow> error + 'v" where
  "switch cases k dflt = (case map_of cases k of Some v \<Rightarrow> Inr v | None \<Rightarrow> Inl dflt)"

definition getDataTypeVector :: "DataType \<Rightarrow> int \<Rightarrow> DataType" where
  "getDataTypeVector scalarType size' =
     (if scalarType \<in> set [FLOAT, INT', UINT, BOOL] then scalarType + size' - 1 else INVALID)"

definition getDataTypeFloatVec :: "int \<Rightarrow> DataType" where
  "getDataTypeFloatVec vecSize = getDataTypeVector FLOAT vecSize"

definition getDataTypeScalarType :: "DataType \<Rightarrow> error + string" where
  "getDataTypeScalarType dataType =
     switch
      [(FLOAT, ''float''), (FLOAT_VEC2, ''float''), (FLOAT_VEC3, ''float''), (FLOAT_VEC4, ''float''),
       (FLOAT_MAT2, ''float''), (FLOAT_MAT2X3, ''float''), (FLOAT_MAT2X4, ''float''),
       (FLOAT_MAT3X2, ''float''), (FLOAT_MAT3, ''float''), (FLOAT_MAT3X4, ''float''),
       (FLOAT_MAT4X2, ''float''), (FLOAT_MAT4X3, ''float''), (FLOAT_MAT4, ''float''),
       (INT', ''int''), (INT_VEC2, ''int''), (INT_VEC3, ''int''), (INT_VEC4, ''int''),
       (UINT, ''uint''), (UINT_VEC2, ''uint''), (UINT_VEC3, ''uint''), (UINT_VEC4, ''uint''),
       (BOOL, ''bool''), (BOOL_VEC2, ''bool''), (BOOL_VEC3, ''bool''), (BOOL_VEC4, ''bool''),
       (SAMPLER_2D, ''sampler2D''), (SAMPLER_CUBE, ''samplerCube''),
       (SAMPLER_2D_ARRAY, ''sampler2DArray''), (SAMPLER_3D, ''sampler3D''),
       (SAMPLER_2D_SHADOW, ''sampler2DShadow''), (SAMPLER_CUBE_SHADOW, ''samplerCubeShadow''),
       (SAMPLER_2D_ARRAY_SHADOW, ''sampler2DArrayShadow''),
       (INT_SAMPLER_2D, ''isampler2D''), (INT_SAMPLER_CUBE, ''isamplerCube''),
       (INT_SAMPLER_2D_ARRAY, ''isampler2DArray''), (INT_SAMPLER_3D, ''isampler3D''),
       (UINT_SAMPLER_2D, ''usampler2D''), (UINT_SAMPLER_CUBE, ''usamplerCube''),
       (UINT_SAMPLER_2D_ARRAY, ''usampler2DArray''), (UINT_SAMPLER_3D, ''usampler3D'')]
      dataType (UnrecognizedDataType dataType)"

definition getDataTypeScalarTypeAsDataType :: "DataType \<Rightarrow> error + DataType" where
  "getDataTypeScalarTypeAsDataType dataType =
     switch
      [(FLOAT, FLOAT), (FLOAT_VEC2, FLOAT), (FLOAT_VEC3, FLOAT), (FLOAT_VEC4, FLOAT),
       (FLOAT_MAT2, FLOAT), (FLOAT_MAT2X3, FLOAT), (FLOAT_MAT2X4, FLOAT),
       (FLOAT_MAT3X2, FLOAT), (FLOAT_MAT3, FLOAT), (FLOAT_MAT3X4, FLOAT),
       (FLOAT_MAT4X2, FLOAT), (FLOAT_MAT4X3, FLOAT), (FLOAT_MAT4, FLOAT),
       (INT', INT'), (INT_VEC2, INT'), (INT_VEC3, INT'), (INT_VEC4, INT'),
       (UINT, UINT), (UINT_VEC2, UINT), (UINT_VEC3, UINT), (UINT_VEC4, UINT),
       (BOOL, BOOL), (BOOL_VEC2, BOOL), (BOOL_VEC3, BOOL), (BOOL_VEC4, BOOL),
       (SAMPLER_2D, SAMPLER_2D), (SAMPLER_CUBE, SAMPLER_CUBE),
       (SAMPLER_2D_ARRAY, SAMPLER_2D_ARRAY), (SAMPLER_3D, SAMPLER_3D),
       (SAMPLER_2D_SHADOW, SAMPLER_2D_SHADOW), (SAMPLER_CUBE_SHADOW, SAMPLER_CUBE_SHADOW),
       (SAMPLER_2D_ARRAY_SHADOW, SAMPLER_2D_ARRAY_SHADOW),
       (INT_SAMPLER_2D, INT_SAMPLER_2D), (INT_SAMPLER_CUBE, INT_SAMPLER_CUBE),
       (INT_SAMPLER_2D_ARRAY, INT_SAMPLER_2D_ARRAY), (INT_SAMPLER_3D, INT_SAMPLER_3D),
       (UINT_SAMPLER_2D, UINT_SAMPLER_2D), (UINT_SAMPLER_CUBE, UINT_SAMPLER_CUBE),
       (UINT_SAMPLER_2D_ARRAY, UINT_SAMPLER_2D_ARRAY), (UINT_SAMPLER_3D, UINT_SAMPLER_3D)]
      dataType (UnrecognizedDataType dataType)"

definition getDataTypeScalarSize :: "DataType \<Rightarrow> error + int" where
  "getDataTypeScalarSize dataType =
     switch
      [(FLOAT, 1), (FLOAT_VEC2, 2), (FLOAT_VEC3, 3), (FLOAT_VEC4, 4),
       (FLOAT_MAT2, 4), (FLOAT_MAT2X3, 6), (FLOAT_MAT2X4, 8),
       (FLOAT_MAT3X2, 6), (FLOAT_MAT3, 9), (FLOAT_MAT3X4, 12),
       (FLOAT_MAT4X2, 8), (FLOAT_MAT4X3, 12), (FLOAT_MAT4, 16),
       (INT', 1), (INT_VEC2, 2), (INT_VEC3, 3), (INT_VEC4, 4),
       (UINT, 1), (UINT_VEC2, 2), (UINT_VEC3, 3), (UINT_VEC4, 4),
       (BOOL, 1), (BOOL_VEC2, 2), (BOOL_VEC3, 3), (BOOL_VEC4, 4),
       (SAMPLER_2D, 1), (SAMPLER_CUBE, 1), (SAMPLER_2D_ARRAY, 1), (SAMPLER_3D, 1),
       (SAMPLER_2D_SHADOW, 1), (SAMPLER_CUBE_SHADOW, 1), (SAMPLER_2D_ARRAY_SHADOW, 1),
       (INT_SAMPLER_2D, 1), (INT_SAMPLER_CUBE, 1), (INT_SAMPLER_2D_ARRAY, 1), (INT_SAMPLER_3D, 1),
       (UINT_SAMPLER_2D, 1), (UINT_SAMPLER_CUBE, 1), (UINT_SAMPLER_2D_ARRAY, 1),
       (UINT_SAMPLER_3D, 1)]
      dataType (UnrecognizedDataType dataType)"

definition isDataTypeMatrix :: "DataType \<Rightarrow> bool" where
  "isDataTypeMatrix dataType \<longleftrightarrow>
     dataType \<in> set [FLOAT_MAT2, FLOAT_MAT2X3, FLOAT_MAT2X4, FLOAT_MAT3X2, FLOAT_MAT3,
                      FLOAT_MAT3X4, FLOAT_MAT4X2, FLOAT_MAT4X3, FLOAT_MAT4]"

definition isDataTypeScalar :: "DataType \<Rightarrow> bool" where
  "isDataTypeScalar dataType \<longleftrightarrow> dataType \<in> set [FLOAT, INT', UINT, BOOL]"

definition isDataTypeVector :: "DataType \<Rightarrow> bool" where
  "isDataTypeVector dataType \<longleftrightarrow>
     dataType \<in> set [FLOAT_VEC2, FLOAT_VEC3, FLOAT_VEC4, INT_VEC2, INT_VEC3, INT_VEC4,
                      UINT_VEC2, UINT_VEC3, UINT_VEC4, BOOL_VEC2, BOOL_VEC3, BOOL_VEC4]"

definition isDataTypeScalarOrVector :: "DataType \<Rightarrow> bool" where
  "isDataTypeScalarOrVector dataType \<longleftrightarrow>
     dataType \<in> set [FLOAT, FLOAT_VEC2, FLOAT_VEC3, FLOAT_VEC4, INT', INT_VEC2, INT_VEC3,
                      INT_VEC4, UINT, UINT_VEC2, UINT_VEC3, UINT_VEC4, BOOL, BOOL_VEC2,
                      BOOL_VEC3, BOOL_VEC4]"

definition getDataTypeMatrixNumRows :: "DataType \<Rightarrow> error + int" where
  "getDataTypeMatrixNumRows dataType =
     switch
      [(FLOAT_MAT2, 2), (FLOAT_MAT2X3, 3), (FLOAT_MAT2X4, 4),
       (FLOAT_MAT3X2, 2), (FLOAT_MAT3, 3), (FLOAT_MAT3X4, 4),
       (FLOAT_MAT4X2, 2), (FLOAT_MAT4X3, 3), (FLOAT_MAT4, 4)]
      dataType (UnrecognizedDataType dataType)"

definition getDataTypeMatrixNumColumns :: "DataType \<Rightarrow> error + int" where
  "getDataTypeMatrixNumColumns dataType =
     switch
      [(FLOAT_MAT2, 2), (FLOAT_MAT2X3, 2), (FLOAT_MAT2X4, 2),
       (FLOAT_MAT3X2, 3), (FLOAT_MAT3, 3), (FLOAT_MAT3X4, 3),
       (FLOAT_MAT4X2, 4), (FLOAT_MAT4X3, 4), (FLOAT_MAT4, 4)]
      dataType (UnrecognizedDataType dataType)"

section \<open>gluVarType\<close>

text \<open>
  A \<^verbatim>\<open>VarType\<close> is built by \<^verbatim>\<open>newTypeBasic\<close>, \<^verbatim>\<open>newTypeArray\<close> or
  \<^verbatim>\<open>newTypeStruct\<close>; its \<^verbatim>\<open>m_type\<close> tag and \<^verbatim>\<open>m_data\<close> payload are the
  constructor and its arguments. The accessors assert the tag with \<^verbatim>\<open>DE_ASSERT\<close>, which
  throws.
\<close>

definition UNSIZED_ARRAY :: int where
  "UNSIZED_ARRAY = - 1"

datatype VarType =
    VarTypeBasic DataType precision
  | VarTypeArray VarType int
  | VarTypeStruct StructType
and StructType = StructType (m_typeName: string) (m_members: "StructMember list")
and StructMember = StructMember (m_name: string) (m_type: VarType)

definition newTypeBasic :: "DataType \<Rightarrow> precision \<Rightarrow> VarType" where
  "newTypeBasic basicType flags = VarTypeBasic basicType flags"

definition newTypeArray :: "VarType \<Rightarrow> int \<Rightarrow> VarType" where
  "newTypeArray elementType arraySize = VarTypeArray elementType arraySize"

definition newTypeStruct :: "StructType \<Rightarrow> VarType" where
  "newTypeStruct structPtr = VarTypeStruct structPtr"

fun isBasicType :: "VarType \<Rightarrow> bool" where
  "isBasicType (VarTypeBasic _ _) = True"
| "isBasicType _ = False"

fun isArrayType :: "VarType \<Rightarrow> bool" where
  "isArrayType (VarTypeArray _ _) = True"
| "isArrayType _ = False"

fun isStructType :: "VarType \<Rightarrow> bool" where
  "isStructType (VarTypeStruct _) = True"
| "isStructType _ = False"

fun getBasicType :: "VarType \<Rightarrow> error + DataType" where
  "getBasicType (VarTypeBasic basicType _) = Inr basicType"
| "getBasicType _ = Inl AssertFailed"

fun getPrecision :: "VarType \<Rightarrow> error + precision" where
  "getPrecision (VarTypeBasic _ p) = Inr p"
| "getPrecision _ = Inl AssertFailed"

fun getElementType :: "VarType \<Rightarrow> error + VarType" where
  "getElementType (VarTypeArray elementType _) = Inr elementType"
| "getElementType _ = Inl AssertFailed"

fun getArraySize :: "VarType \<Rightarrow> error + int" where
  "getArraySize (VarTypeArray _ arraySize) = Inr arraySize"
| "getArraySize _ = Inl AssertFailed"

fun getStruct :: "VarType \<Rightarrow> error + StructType" where
  "getStruct (VarTypeStruct s) = Inr s"
| "getStruct _ = Inl AssertFailed"

text \<open>
  \<^verbatim>\<open>StructType.getMember\<close> returns \<^verbatim>\<open>undefined\<close> for an index out of range (\<open>None\<close>);
  calling \<^verbatim>\<open>getType()\<close> or \<^verbatim>\<open>getName()\<close> on it is a TypeError.
\<close>

definition getSize :: "StructType \<Rightarrow> int" where
  "getSize s = int (length (m_members s))"

definition getMember :: "StructType \<Rightarrow> int \<Rightarrow> StructMember option" where
  "getMember s memberNdx =
     (if memberNdx \<ge> 0 \<and> memberNdx < int (length (m_members s))
      then Some (m_members s ! nat memberNdx) else None)"

definition getType :: "StructMember option \<Rightarrow> error + VarType" where
  "getType member = (case member of None \<Rightarrow> Inl JsTypeError | Some m \<Rightarrow> Inr (m_type m))"

definition getName :: "StructMember option \<Rightarrow> error + string" where
  "getName member = (case member of None \<Rightarrow> Inl JsTypeError | Some m \<Rightarrow> Inr (m_name m))"

section \<open>gluVarTypeUtil\<close>

datatype ComponentType = STRUCT_MEMBER | ARRAY_ELEMENT | MATRIX_COLUMN | VECTOR_COMPONENT

text \<open>
  \<^verbatim>\<open>ComponentType.length = Object.keys(ComponentType).length / 2\<close>: a numeric enum has a
  key for each name and one for each value.
\<close>

definition ComponentType_keys :: "string list" where
  "ComponentType_keys =
     [''0'', ''1'', ''2'', ''3'',
      ''STRUCT_MEMBER'', ''ARRAY_ELEMENT'', ''MATRIX_COLUMN'', ''VECTOR_COMPONENT'']"

definition ComponentType_length :: int where
  "ComponentType_length = int (length ComponentType_keys) div 2"

text \<open>
  A path component. The constructor sets \<^verbatim>\<open>this.type = type_ || null\<close> and
  \<^verbatim>\<open>this.index = index_ || ComponentType.length\<close>: \<^verbatim>\<open>STRUCT_MEMBER\<close> is the enum value 0
  and 0 is falsy, so the type can be \<^verbatim>\<open>null\<close> (\<open>None\<close>). A comparison
  \<^verbatim>\<open>element.type == ComponentType.X\<close> is false for \<^verbatim>\<open>null\<close>.
\<close>

record VarTypeComponent =
  type :: "ComponentType option"
  index :: int

definition new_VarTypeComponent :: "ComponentType \<Rightarrow> int \<Rightarrow> VarTypeComponent" where
  "new_VarTypeComponent type' index' =
     \<lparr> type = (if type' = STRUCT_MEMBER then None else Some type'),
       index = (if index' = 0 then ComponentType_length else index') \<rparr>"

definition VarTypeComponent_is :: "VarTypeComponent \<Rightarrow> VarTypeComponent \<Rightarrow> bool" where
  "VarTypeComponent_is this other \<longleftrightarrow> type this = type other \<and> index this = index other"

definition inBounds :: "int \<Rightarrow> int \<Rightarrow> int \<Rightarrow> bool" where
  "inBounds x a b \<longleftrightarrow> a \<le> x \<and> x < b"

text \<open>
  \<^verbatim>\<open>isValidTypePath(type, array)\<close> with the default range (the whole array). The while
  loop over the struct member and array element steps returns \<^verbatim>\<open>false\<close> from inside
  (\<open>None\<close>) or leaves the current type and the rest of the path.
\<close>

fun isValidTypePath_loop ::
  "VarType \<Rightarrow> VarTypeComponent list \<Rightarrow> error + (VarType \<times> VarTypeComponent list) option" where
  "isValidTypePath_loop curType [] = Inr (Some (curType, []))"
| "isValidTypePath_loop curType (element # rest) =
     (if type element = Some STRUCT_MEMBER then
        (if \<not> isStructType curType then Inr None
         else (case getStruct curType of
                 Inl e \<Rightarrow> Inl e
               | Inr s \<Rightarrow>
                   if \<not> inBounds (index element) 0 (getSize s) then Inr None
                   else (case getType (getMember s (index element)) of
                           Inl e \<Rightarrow> Inl e
                         | Inr t \<Rightarrow> isValidTypePath_loop t rest)))
      else if type element = Some ARRAY_ELEMENT then
        (if \<not> isArrayType curType then Inr None
         else (case getArraySize curType of
                 Inl e \<Rightarrow> Inl e
               | Inr arraySize \<Rightarrow>
                   if arraySize \<noteq> UNSIZED_ARRAY \<and> \<not> inBounds (index element) 0 arraySize
                   then Inr None
                   else (case getElementType curType of
                           Inl e \<Rightarrow> Inl e
                         | Inr t \<Rightarrow> isValidTypePath_loop t rest)))
      else Inr (Some (curType, element # rest)))"

text \<open>The vector component step, and \<^verbatim>\<open>return pathIter == end\<close>.\<close>

definition isValidTypePath_vector :: "DataType \<Rightarrow> VarTypeComponent list \<Rightarrow> error + bool" where
  "isValidTypePath_vector basicType rest =
     (case rest of
        [] \<Rightarrow> Inr True
      | element # rest' \<Rightarrow>
          if type element = Some VECTOR_COMPONENT then
            (if \<not> isDataTypeVector basicType then Inr False
             else (case getDataTypeScalarTypeAsDataType basicType of
                     Inl e \<Rightarrow> Inl e
                   | Inr _ \<Rightarrow> Inr (rest' = [])))
          else Inr False)"

text \<open>The part after the loop when \<^verbatim>\<open>pathIter != end\<close>.\<close>

definition isValidTypePath_basic ::
  "VarType \<Rightarrow> VarTypeComponent \<Rightarrow> VarTypeComponent list \<Rightarrow> error + bool" where
  "isValidTypePath_basic curType element rest =
     (if \<not> (type element = Some MATRIX_COLUMN \<or> type element = Some VECTOR_COMPONENT)
      then Inl NotAMatrixOrAVector
      else if \<not> isBasicType curType then Inr False
      else (case getBasicType curType of
              Inl e \<Rightarrow> Inl e
            | Inr basicType \<Rightarrow>
                if type element = Some MATRIX_COLUMN then
                  (if \<not> isDataTypeMatrix basicType then Inr False
                   else (case getDataTypeMatrixNumRows basicType of
                           Inl e \<Rightarrow> Inl e
                         | Inr rows \<Rightarrow> isValidTypePath_vector (getDataTypeFloatVec rows) rest))
                else isValidTypePath_vector basicType (element # rest)))"

definition isValidTypePath :: "VarType \<Rightarrow> VarTypeComponent list \<Rightarrow> error + bool" where
  "isValidTypePath ty array =
     (case isValidTypePath_loop ty array of
        Inl e \<Rightarrow> Inl e
      | Inr None \<Rightarrow> Inr False
      | Inr (Some (curType, [])) \<Rightarrow> Inr True
      | Inr (Some (curType, element # rest)) \<Rightarrow> isValidTypePath_basic curType element rest)"

text \<open>
  \<^verbatim>\<open>getVarType(type, array)\<close> with the default range. It calls isValidTypePath first and
  then walks the path again, without checks of its own.
\<close>

fun getVarType_loop ::
  "VarType \<Rightarrow> VarTypeComponent list \<Rightarrow> error + VarType \<times> VarTypeComponent list" where
  "getVarType_loop curType [] = Inr (curType, [])"
| "getVarType_loop curType (element # rest) =
     (if type element = Some STRUCT_MEMBER then
        (case getStruct curType of
           Inl e \<Rightarrow> Inl e
         | Inr s \<Rightarrow>
             (case getType (getMember s (index element)) of
                Inl e \<Rightarrow> Inl e
              | Inr t \<Rightarrow> getVarType_loop t rest))
      else if type element = Some ARRAY_ELEMENT then
        (case getElementType curType of
           Inl e \<Rightarrow> Inl e
         | Inr t \<Rightarrow> getVarType_loop t rest)
      else Inr (curType, element # rest))"

definition getVarType_column ::
  "DataType \<Rightarrow> VarTypeComponent list \<Rightarrow> error + DataType \<times> VarTypeComponent list" where
  "getVarType_column basicType rest =
     (case rest of
        [] \<Rightarrow> Inr (basicType, rest)
      | element # rest' \<Rightarrow>
          if type element = Some MATRIX_COLUMN then
            (case getDataTypeMatrixNumRows basicType of
               Inl e \<Rightarrow> Inl e
             | Inr rows \<Rightarrow> Inr (getDataTypeFloatVec rows, rest'))
          else Inr (basicType, rest))"

definition getVarType_component ::
  "DataType \<Rightarrow> VarTypeComponent list \<Rightarrow> error + DataType \<times> VarTypeComponent list" where
  "getVarType_component basicType rest =
     (case rest of
        [] \<Rightarrow> Inr (basicType, rest)
      | element # rest' \<Rightarrow>
          if type element = Some VECTOR_COMPONENT then
            (case getDataTypeScalarTypeAsDataType basicType of
               Inl e \<Rightarrow> Inl e
             | Inr scalar \<Rightarrow> Inr (scalar, rest'))
          else Inr (basicType, rest))"

definition getVarType_basic ::
  "VarType \<Rightarrow> VarTypeComponent list \<Rightarrow> error + VarType" where
  "getVarType_basic curType rest =
     (case getBasicType curType of
        Inl e \<Rightarrow> Inl e
      | Inr basicType \<Rightarrow>
          (case getPrecision curType of
             Inl e \<Rightarrow> Inl e
           | Inr precision \<Rightarrow>
               (case getVarType_column basicType rest of
                  Inl e \<Rightarrow> Inl e
                | Inr (basicType', rest') \<Rightarrow>
                    (case getVarType_component basicType' rest' of
                       Inl e \<Rightarrow> Inl e
                     | Inr (basicType'', rest'') \<Rightarrow>
                         if rest'' \<noteq> [] then Inl EmptyError
                         else Inr (newTypeBasic basicType'' precision)))))"

definition getVarType :: "VarType \<Rightarrow> VarTypeComponent list \<Rightarrow> error + VarType" where
  "getVarType ty array =
     (case isValidTypePath ty array of
        Inl e \<Rightarrow> Inl e
      | Inr valid \<Rightarrow>
          if \<not> valid then Inl TypeIsInvalid
          else (case getVarType_loop ty array of
                  Inl e \<Rightarrow> Inl e
                | Inr (curType, rest) \<Rightarrow>
                    if rest \<noteq> [] then getVarType_basic curType rest else Inr curType))"

subsection \<open>Strings and numbers\<close>

text \<open>
  \<^verbatim>\<open>isNum\<close>, \<^verbatim>\<open>isAlpha\<close> and \<^verbatim>\<open>isIdentifierChar\<close> test one character against a regular
  expression; applied to \<^verbatim>\<open>undefined\<close> (an index past the end of the string) they are false.
  \<^verbatim>\<open>number_toString\<close> is the decimal text of an integer, as string concatenation gives it,
  for an integer below \<open>10^21\<close>. \<^verbatim>\<open>parseInt\<close> is applied to \<^verbatim>\<open>NUMBER\<close> tokens only,
  strings of digits: its value is the double nearest to the number the digits write,
  which is an integer.
\<close>

definition isNum :: "char \<Rightarrow> bool" where
  "isNum c \<longleftrightarrow> c \<in> set ''0123456789''"

definition isAlpha :: "char \<Rightarrow> bool" where
  "isAlpha c \<longleftrightarrow> c \<in> set ''abcdefghijklmnopqrstuvwxyzABCDEFGHIJKLMNOPQRSTUVWXYZ''"

definition isIdentifierChar :: "char \<Rightarrow> bool" where
  "isIdentifierChar c \<longleftrightarrow> isAlpha c \<or> isNum c \<or> c = CHR ''_''"

fun string_of_nat :: "nat \<Rightarrow> string" where
  "string_of_nat n =
     (if n < 10 then [''0123456789'' ! n]
      else string_of_nat (n div 10) @ [''0123456789'' ! (n mod 10)])"

declare string_of_nat.simps [simp del]

definition number_toString :: "int \<Rightarrow> string" where
  "number_toString i = (if i < 0 then ''-'' @ string_of_nat (nat (- i)) else string_of_nat (nat i))"

definition parseInt :: "string \<Rightarrow> int" where
  "parseInt s = \<lfloor>to_double (of_int (foldl (\<lambda>acc c. acc * 10 + (of_char c - 48)) 0 s))\<rfloor>"

subsection \<open>VarTokenizer\<close>

text \<open>
  The tokenizer's state. \<^verbatim>\<open>advance\<close> throws on a character that starts no token and when
  called at \<^verbatim>\<open>END\<close>; the two while loops that extend a number or an identifier are
  \<open>takeWhile\<close>.
\<close>

datatype Token = IDENTIFIER | LEFT_BRACKET | RIGHT_BRACKET | PERIOD | NUMBER | END | TOKEN_LAST

record VarTokenizer =
  m_str :: string
  m_token :: Token
  m_tokenStart :: nat
  m_tokenLen :: nat

definition getToken :: "VarTokenizer \<Rightarrow> Token" where
  "getToken this = m_token this"

definition getIdentifier :: "VarTokenizer \<Rightarrow> string" where
  "getIdentifier this = take (m_tokenLen this) (drop (m_tokenStart this) (m_str this))"

definition getNumber :: "VarTokenizer \<Rightarrow> int" where
  "getNumber this = parseInt (getIdentifier this)"

definition advance :: "VarTokenizer \<Rightarrow> error + VarTokenizer" where
  "advance this =
     (if m_token this = END then Inl NoMoreTokens
      else
        let tokenStart = m_tokenStart this + m_tokenLen this;
            str = m_str this;
            next = this \<lparr> m_tokenStart := tokenStart, m_token := TOKEN_LAST, m_tokenLen := 1 \<rparr>
        in
          if tokenStart \<ge> length str then Inr (next \<lparr> m_token := END \<rparr>)
          else if str ! tokenStart = CHR ''['' then Inr (next \<lparr> m_token := LEFT_BRACKET \<rparr>)
          else if str ! tokenStart = CHR '']'' then Inr (next \<lparr> m_token := RIGHT_BRACKET \<rparr>)
          else if str ! tokenStart = CHR ''.'' then Inr (next \<lparr> m_token := PERIOD \<rparr>)
          else if isNum (str ! tokenStart) then
            Inr (next \<lparr> m_token := NUMBER,
                       m_tokenLen := 1 + length (takeWhile isNum (drop (tokenStart + 1) str)) \<rparr>)
          else if isIdentifierChar (str ! tokenStart) then
            Inr (next \<lparr> m_token := IDENTIFIER,
                       m_tokenLen := 1 + length (takeWhile isIdentifierChar (drop (tokenStart + 1) str)) \<rparr>)
          else Inl UnexpectedCharacter)"

definition new_VarTokenizer :: "string \<Rightarrow> error + VarTokenizer" where
  "new_VarTokenizer str =
     advance \<lparr> m_str = str, m_token = TOKEN_LAST, m_tokenStart = 0, m_tokenLen = 0 \<rparr>"

subsection \<open>parseVariableName, parseTypePath\<close>

definition parseVariableName :: "string \<Rightarrow> error + string" where
  "parseVariableName nameWithPath =
     (case new_VarTokenizer nameWithPath of
        Inl e \<Rightarrow> Inl e
      | Inr tokenizer \<Rightarrow>
          if getToken tokenizer \<noteq> IDENTIFIER then Inl NotAnIdentifier
          else Inr (getIdentifier tokenizer))"

fun findMember :: "string \<Rightarrow> StructMember list \<Rightarrow> int" where
  "findMember memberName [] = 0"
| "findMember memberName (m # ms) =
     (if memberName = m_name m then 0 else 1 + findMember memberName ms)"

definition parseTypePath_subscript :: "VarType \<Rightarrow> int \<Rightarrow> error + VarTypeComponent" where
  "parseTypePath_subscript curType ndx =
     (if isArrayType curType then
        (case getArraySize curType of
           Inl e \<Rightarrow> Inl e
         | Inr arraySize \<Rightarrow>
             if \<not> inBounds ndx 0 arraySize then Inl EmptyError
             else Inr (new_VarTypeComponent ARRAY_ELEMENT ndx))
      else if isBasicType curType \<and> (case getBasicType curType of Inl e \<Rightarrow> False | Inr b \<Rightarrow> isDataTypeMatrix b) then
        (case getBasicType curType of
           Inl e \<Rightarrow> Inl e
         | Inr b \<Rightarrow>
             (case getDataTypeMatrixNumColumns b of
                Inl e \<Rightarrow> Inl e
              | Inr n \<Rightarrow>
                  if \<not> inBounds ndx 0 n then Inl EmptyError
                  else Inr (new_VarTypeComponent MATRIX_COLUMN ndx)))
      else if isBasicType curType \<and> (case getBasicType curType of Inl e \<Rightarrow> False | Inr b \<Rightarrow> isDataTypeVector b) then
        (case getBasicType curType of
           Inl e \<Rightarrow> Inl e
         | Inr b \<Rightarrow>
             (case getDataTypeScalarSize b of
                Inl e \<Rightarrow> Inl e
              | Inr n \<Rightarrow>
                  if \<not> inBounds ndx 0 n then Inl EmptyError
                  else Inr (new_VarTypeComponent VECTOR_COMPONENT ndx)))
      else Inl InvalidSubscript)"

text \<open>
  One round of the loop of \<^verbatim>\<open>parseTypePath\<close>, for a token other than \<^verbatim>\<open>END\<close>: the
  branch for \<^verbatim>\<open>.name\<close>, the branch for \<^verbatim>\<open>[n]\<close>, and the round as a whole. A round gives
  the tokenizer after it and the component it pushes.
\<close>

definition parseTypePath_member ::
  "VarType \<Rightarrow> VarTokenizer \<Rightarrow> error + VarTokenizer \<times> VarTypeComponent" where
  "parseTypePath_member curType tokenizer =
     (case advance tokenizer of
        Inl e \<Rightarrow> Inl e
      | Inr tokenizer1 \<Rightarrow>
          if getToken tokenizer1 \<noteq> IDENTIFIER then Inl EmptyError
          else if \<not> isStructType curType then Inl InvalidFieldSelector
          else
            (case getStruct curType of
               Inl e \<Rightarrow> Inl e
             | Inr s \<Rightarrow>
                 if findMember (getIdentifier tokenizer1) (m_members s) \<ge> getSize s
                 then Inl (MemberNotFound (getIdentifier tokenizer1))
                 else
                   (case advance tokenizer1 of
                      Inl e \<Rightarrow> Inl e
                    | Inr tokenizer2 \<Rightarrow>
                        Inr (tokenizer2,
                             new_VarTypeComponent STRUCT_MEMBER
                               (findMember (getIdentifier tokenizer1) (m_members s))))))"

definition parseTypePath_element ::
  "VarType \<Rightarrow> VarTokenizer \<Rightarrow> error + VarTokenizer \<times> VarTypeComponent" where
  "parseTypePath_element curType tokenizer =
     (case advance tokenizer of
        Inl e \<Rightarrow> Inl e
      | Inr tokenizer1 \<Rightarrow>
          if getToken tokenizer1 \<noteq> NUMBER then Inl EmptyError
          else
            (case parseTypePath_subscript curType (getNumber tokenizer1) of
               Inl e \<Rightarrow> Inl e
             | Inr component \<Rightarrow>
                 (case advance tokenizer1 of
                    Inl e \<Rightarrow> Inl e
                  | Inr tokenizer2 \<Rightarrow>
                      if getToken tokenizer2 \<noteq> RIGHT_BRACKET then Inl ExpectedRightBracket
                      else
                        (case advance tokenizer2 of
                           Inl e \<Rightarrow> Inl e
                         | Inr tokenizer3 \<Rightarrow> Inr (tokenizer3, component)))))"

definition parseTypePath_round ::
  "VarType \<Rightarrow> VarTokenizer \<Rightarrow> VarTypeComponent list \<Rightarrow> error + VarTokenizer \<times> VarTypeComponent" where
  "parseTypePath_round ty tokenizer path =
     (case getVarType ty path of
        Inl e \<Rightarrow> Inl e
      | Inr curType \<Rightarrow>
          if getToken tokenizer = PERIOD then parseTypePath_member curType tokenizer
          else if getToken tokenizer = LEFT_BRACKET then parseTypePath_element curType tokenizer
          else Inl UnexpectedToken)"

text \<open>
  Every round consumes at least two tokens, and a token other than \<^verbatim>\<open>END\<close> starts inside
  the string, so the loop ends.
\<close>

lemma advance_progress:
  assumes "advance t = Inr t'"
  shows "m_str t' = m_str t \<and> m_tokenStart t' = m_tokenStart t + m_tokenLen t
    \<and> 1 \<le> m_tokenLen t' \<and> (m_token t' \<noteq> END \<longrightarrow> m_tokenStart t' < length (m_str t'))"
  using assms by (auto simp: advance_def Let_def split: if_splits)

lemma parseTypePath_round_progress:
  assumes "parseTypePath_round ty t path = Inr (t', c)"
  shows "length (m_str t') - m_tokenStart t' < length (m_str t) - m_tokenStart t"
proof -
  have member: "length (m_str t') - m_tokenStart t' < length (m_str t) - m_tokenStart t"
    if "parseTypePath_member curType t = Inr (t', c)" for curType
  proof -
    from that obtain t1 where t1: "advance t = Inr t1" "m_token t1 = IDENTIFIER" "advance t1 = Inr t'"
      by (auto simp: parseTypePath_member_def getToken_def split: sum.splits if_splits)
    from advance_progress [OF t1(1)] advance_progress [OF t1(3)] t1(2) show ?thesis
      by auto
  qed
  have element: "length (m_str t') - m_tokenStart t' < length (m_str t) - m_tokenStart t"
    if "parseTypePath_element curType t = Inr (t', c)" for curType
  proof -
    from that obtain t1 t2 where t1: "advance t = Inr t1" "m_token t1 = NUMBER"
      "advance t1 = Inr t2" "advance t2 = Inr t'"
      by (auto simp: parseTypePath_element_def getToken_def split: sum.splits if_splits)
    from advance_progress [OF t1(1)] advance_progress [OF t1(3)] advance_progress [OF t1(4)] t1(2)
    show ?thesis
      by auto
  qed
  from assms member element show ?thesis
    by (auto simp: parseTypePath_round_def split: sum.splits if_splits)
qed

function parseTypePath_loop ::
  "VarType \<Rightarrow> VarTokenizer \<Rightarrow> VarTypeComponent list \<Rightarrow> error + VarTypeComponent list" where
  "parseTypePath_loop ty tokenizer path =
     (if getToken tokenizer = END then Inr path
      else
        (case parseTypePath_round ty tokenizer path of
           Inl e \<Rightarrow> Inl e
         | Inr (tokenizer', component) \<Rightarrow>
             parseTypePath_loop ty tokenizer' (path @ [component])))"
  by pat_completeness auto
termination
  by (relation "measure (\<lambda>(ty, tokenizer, path). length (m_str tokenizer) - m_tokenStart tokenizer)")
    (auto dest: parseTypePath_round_progress)

declare parseTypePath_loop.simps [simp del]

definition parseTypePath :: "string \<Rightarrow> VarType \<Rightarrow> error + VarTypeComponent list" where
  "parseTypePath nameWithPath ty =
     (case new_VarTokenizer nameWithPath of
        Inl e \<Rightarrow> Inl e
      | Inr tokenizer \<Rightarrow>
          if getToken tokenizer = IDENTIFIER then
            (case advance tokenizer of
               Inl e \<Rightarrow> Inl e
             | Inr tokenizer1 \<Rightarrow> parseTypePath_loop ty tokenizer1 [])
          else parseTypePath_loop ty tokenizer [])"

subsection \<open>TypeAccessFormat\<close>

text \<open>
  \<^verbatim>\<open>toString\<close> switches on the component's type with strict equality, so \<^verbatim>\<open>null\<close> falls to
  the default case and throws. For a struct member step it reads \<^verbatim>\<open>getMember(i)\<close>, where
  \<^verbatim>\<open>i\<close> is the position in the path.
\<close>

fun TypeAccessFormat_toString_loop ::
  "VarType \<Rightarrow> VarTypeComponent list \<Rightarrow> int \<Rightarrow> string \<Rightarrow> error + string" where
  "TypeAccessFormat_toString_loop curType [] i str = Inr str"
| "TypeAccessFormat_toString_loop curType (iter # rest) i str =
     (case type iter of
        Some ARRAY_ELEMENT \<Rightarrow>
          (case getElementType curType of
             Inl e \<Rightarrow> Inl e
           | Inr elementType \<Rightarrow>
               TypeAccessFormat_toString_loop elementType rest (i + 1)
                 (str @ ''['' @ number_toString (index iter) @ '']''))
      | Some MATRIX_COLUMN \<Rightarrow>
          TypeAccessFormat_toString_loop curType rest (i + 1)
            (str @ ''['' @ number_toString (index iter) @ '']'')
      | Some VECTOR_COMPONENT \<Rightarrow>
          TypeAccessFormat_toString_loop curType rest (i + 1)
            (str @ ''['' @ number_toString (index iter) @ '']'')
      | Some STRUCT_MEMBER \<Rightarrow>
          (case getStruct curType of
             Inl e \<Rightarrow> Inl e
           | Inr s \<Rightarrow>
               (case getName (getMember s i) of
                  Inl e \<Rightarrow> Inl e
                | Inr memberName \<Rightarrow>
                    (case getType (getMember s i) of
                       Inl e \<Rightarrow> Inl e
                     | Inr memberType \<Rightarrow>
                         TypeAccessFormat_toString_loop memberType rest (i + 1)
                           (str @ ''.'' @ memberName))))
      | None \<Rightarrow> Inl UnrecognizedType)"

definition TypeAccessFormat_toString :: "VarType \<Rightarrow> VarTypeComponent list \<Rightarrow> error + string" where
  "TypeAccessFormat_toString ty path = TypeAccessFormat_toString_loop ty path 0 []"

subsection \<open>SubTypeIterator\<close>

text \<open>
  The iterator's state is its root type, \<^verbatim>\<open>null\<close> (\<open>None\<close>) once the iteration has ended, and
  its path. The subclasses differ in \<^verbatim>\<open>isExpanded\<close> only, which is a parameter here. The loop
  of \<^verbatim>\<open>findNext\<close> is \<^verbatim>\<open>for (;;)\<close>: it takes fuel, and \<open>None\<close> is running out of it.
\<close>

record SubTypeIterator =
  m_type :: "VarType option"
  m_path :: "VarTypeComponent list"

definition SubTypeIterator_getType :: "SubTypeIterator \<Rightarrow> error + VarType" where
  "SubTypeIterator_getType this =
     (case m_type this of None \<Rightarrow> Inl JsTypeError | Some ty \<Rightarrow> getVarType ty (m_path this))"

definition SubTypeIterator_end :: "SubTypeIterator \<Rightarrow> bool" where
  "SubTypeIterator_end this \<longleftrightarrow> m_type this = None"

definition BasicTypeIterator_isExpanded :: "VarType \<Rightarrow> error + bool" where
  "BasicTypeIterator_isExpanded ty = Inr (isBasicType ty)"

definition VectorTypeIterator_isExpanded :: "VarType \<Rightarrow> error + bool" where
  "VectorTypeIterator_isExpanded ty =
     (if isBasicType ty then
        (case getBasicType ty of Inl e \<Rightarrow> Inl e | Inr b \<Rightarrow> Inr (isDataTypeScalarOrVector b))
      else Inr False)"

definition ScalarTypeIterator_isExpanded :: "VarType \<Rightarrow> error + bool" where
  "ScalarTypeIterator_isExpanded ty =
     (if isBasicType ty then
        (case getBasicType ty of Inl e \<Rightarrow> Inl e | Inr b \<Rightarrow> Inr (isDataTypeScalar b))
      else Inr False)"

definition findNext_child :: "VarType \<Rightarrow> error + VarTypeComponent" where
  "findNext_child curType =
     (if isBasicType curType then
        (case getBasicType curType of
           Inl e \<Rightarrow> Inl e
         | Inr basicType \<Rightarrow>
             if isDataTypeMatrix basicType then Inr (new_VarTypeComponent MATRIX_COLUMN 0)
             else if isDataTypeVector basicType then Inr (new_VarTypeComponent VECTOR_COMPONENT 0)
             else Inl CantExpandScalars)
      else if isArrayType curType then Inr (new_VarTypeComponent ARRAY_ELEMENT 0)
      else if isStructType curType then Inr (new_VarTypeComponent STRUCT_MEMBER 0)
      else Inl EmptyError)"

fun findNext_loop ::
  "nat \<Rightarrow> (VarType \<Rightarrow> error + bool) \<Rightarrow> SubTypeIterator \<Rightarrow> (error + SubTypeIterator) option" where
  "findNext_loop 0 isExpanded this = None"
| "findNext_loop (Suc fuel) isExpanded this =
     (case SubTypeIterator_getType this of
        Inl e \<Rightarrow> Some (Inl e)
      | Inr curType \<Rightarrow>
          (case isExpanded curType of
             Inl e \<Rightarrow> Some (Inl e)
           | Inr expanded \<Rightarrow>
               if expanded then Some (Inr this)
               else
                 (case findNext_child curType of
                    Inl e \<Rightarrow> Some (Inl e)
                  | Inr child \<Rightarrow>
                      findNext_loop fuel isExpanded (this \<lparr> m_path := m_path this @ [child] \<rparr>))))"

definition findNext ::
  "nat \<Rightarrow> (VarType \<Rightarrow> error + bool) \<Rightarrow> SubTypeIterator \<Rightarrow> (error + SubTypeIterator) option" where
  "findNext fuel isExpanded this =
     findNext_loop fuel isExpanded
       (if length (m_path this) > 0 then
          this \<lparr> m_path := butlast (m_path this)
                    @ [last (m_path this) \<lparr> index := index (last (m_path this)) + 1 \<rparr>] \<rparr>
        else this)"

definition new_SubTypeIterator ::
  "nat \<Rightarrow> (VarType \<Rightarrow> error + bool) \<Rightarrow> VarType \<Rightarrow> (error + SubTypeIterator) option" where
  "new_SubTypeIterator fuel isExpanded ty =
     findNext fuel isExpanded \<lparr> m_type = Some ty, m_path = [] \<rparr>"

text \<open>The check removeTraversed makes for the last component: does it have a next sibling?\<close>

definition removeTraversed_hasNext :: "VarType \<Rightarrow> VarTypeComponent \<Rightarrow> error + bool" where
  "removeTraversed_hasNext parentType curComp =
     (if type curComp = Some MATRIX_COLUMN then
        (case getBasicType parentType of
           Inl e \<Rightarrow> Inl e
         | Inr b \<Rightarrow>
             if \<not> isDataTypeMatrix b then Inl IsntAMatrix
             else (case getDataTypeMatrixNumColumns b of
                     Inl e \<Rightarrow> Inl e
                   | Inr n \<Rightarrow> Inr (index curComp + 1 < n)))
      else if type curComp = Some VECTOR_COMPONENT then
        (case getBasicType parentType of
           Inl e \<Rightarrow> Inl e
         | Inr b \<Rightarrow>
             if \<not> isDataTypeVector b then Inl IsntAVector
             else (case getDataTypeScalarSize b of
                     Inl e \<Rightarrow> Inl e
                   | Inr n \<Rightarrow> Inr (index curComp + 1 < n)))
      else if type curComp = Some ARRAY_ELEMENT then
        (if \<not> isArrayType parentType then Inl IsntAnArray
         else (case getArraySize parentType of
                 Inl e \<Rightarrow> Inl e
               | Inr n \<Rightarrow> Inr (index curComp + 1 < n)))
      else if type curComp = Some STRUCT_MEMBER then
        (if \<not> isStructType parentType then Inl IsntAStruct
         else (case getStruct parentType of
                 Inl e \<Rightarrow> Inl e
               | Inr s \<Rightarrow> Inr (index curComp + 1 < getSize s)))
      else Inr False)"

function removeTraversed :: "VarType \<Rightarrow> VarTypeComponent list \<Rightarrow> error + VarTypeComponent list" where
  "removeTraversed ty path =
     (if path = [] then Inr path
      else
        (case getVarType ty (butlast path) of
           Inl e \<Rightarrow> Inl e
         | Inr parentType \<Rightarrow>
             (case removeTraversed_hasNext parentType (last path) of
                Inl e \<Rightarrow> Inl e
              | Inr hasNext \<Rightarrow>
                  if hasNext then Inr path else removeTraversed ty (butlast path))))"
  by pat_completeness auto
termination
  by (relation "measure (\<lambda>(ty, path). length path)") auto

declare removeTraversed.simps [simp del]

definition SubTypeIterator_next ::
  "nat \<Rightarrow> (VarType \<Rightarrow> error + bool) \<Rightarrow> SubTypeIterator \<Rightarrow> (error + SubTypeIterator) option" where
  "SubTypeIterator_next fuel isExpanded this =
     (if length (m_path this) > 0 then
        (case m_type this of
           None \<Rightarrow> Some (Inl JsTypeError)
         | Some ty \<Rightarrow>
             (case removeTraversed ty (m_path this) of
                Inl e \<Rightarrow> Some (Inl e)
              | Inr path \<Rightarrow>
                  if length path > 0 then findNext fuel isExpanded (this \<lparr> m_path := path \<rparr>)
                  else Some (Inr (this \<lparr> m_path := path, m_type := None \<rparr>))))
      else
        (case SubTypeIterator_getType this of
           Inl e \<Rightarrow> Some (Inl e)
         | Inr ty \<Rightarrow>
             (case isExpanded ty of
                Inl e \<Rightarrow> Some (Inl e)
              | Inr expanded \<Rightarrow>
                  if \<not> expanded then Some (Inl FirstTypeAlreadyExpanded)
                  else Some (Inr (this \<lparr> m_type := None \<rparr>)))))"

text \<open>The paths a caller's loop sees:
  for (it = new Iterator(ty); !it.end(); it.next()) ... it.getPath() ...\<close>

fun SubTypeIterator_paths_loop ::
  "nat \<Rightarrow> (VarType \<Rightarrow> error + bool) \<Rightarrow> SubTypeIterator \<Rightarrow> (error + VarTypeComponent list list) option" where
  "SubTypeIterator_paths_loop 0 isExpanded it = None"
| "SubTypeIterator_paths_loop (Suc fuel) isExpanded it =
     (if SubTypeIterator_end it then Some (Inr [])
      else
        (case SubTypeIterator_next fuel isExpanded it of
           None \<Rightarrow> None
         | Some (Inl e) \<Rightarrow> Some (Inl e)
         | Some (Inr it') \<Rightarrow>
             (case SubTypeIterator_paths_loop fuel isExpanded it' of
                None \<Rightarrow> None
              | Some (Inl e) \<Rightarrow> Some (Inl e)
              | Some (Inr paths) \<Rightarrow> Some (Inr (m_path it # paths)))))"

definition VectorTypeIterator_paths :: "nat \<Rightarrow> VarType \<Rightarrow> (error + VarTypeComponent list list) option" where
  "VectorTypeIterator_paths fuel ty =
     (case new_SubTypeIterator fuel VectorTypeIterator_isExpanded ty of
        None \<Rightarrow> None
      | Some (Inl e) \<Rightarrow> Some (Inl e)
      | Some (Inr it) \<Rightarrow> SubTypeIterator_paths_loop fuel VectorTypeIterator_isExpanded it)"

section \<open>Primitive topology arithmetic (transform feedback tests)\<close>

text \<open>\<^verbatim>\<open>gluDrawUtil.primitiveType\<close>.\<close>

datatype primitiveType =
    TRIANGLES
  | TRIANGLE_STRIP
  | TRIANGLE_FAN
  | LINES
  | LINE_STRIP
  | LINE_LOOP
  | POINTS
  | PATCHES

text \<open>
  The number of vertices written. \<^verbatim>\<open>numElements - numElements % 3\<close> and
  \<^verbatim>\<open>Math.max(0, numElements - 2) * 3\<close> are double arithmetic: the remainder and the
  maximum are exact, each subtraction and multiplication rounds.
\<close>

fun getTransformFeedbackOutputCount :: "primitiveType \<Rightarrow> number \<Rightarrow> error + number" where
  "getTransformFeedbackOutputCount TRIANGLES numElements =
     Inr (to_double (numElements - js_rem numElements 3))"
| "getTransformFeedbackOutputCount TRIANGLE_STRIP numElements =
     Inr (to_double (max 0 (to_double (numElements - 2)) * 3))"
| "getTransformFeedbackOutputCount TRIANGLE_FAN numElements =
     Inr (to_double (max 0 (to_double (numElements - 2)) * 3))"
| "getTransformFeedbackOutputCount LINES numElements =
     Inr (to_double (numElements - js_rem numElements 2))"
| "getTransformFeedbackOutputCount LINE_STRIP numElements =
     Inr (to_double (max 0 (to_double (numElements - 1)) * 2))"
| "getTransformFeedbackOutputCount LINE_LOOP numElements =
     Inr (if numElements > 1 then to_double (numElements * 2) else 0)"
| "getTransformFeedbackOutputCount POINTS numElements = Inr numElements"
| "getTransformFeedbackOutputCount PATCHES numElements = Inl UnrecognizedPrimitiveType"

text \<open>
  The written-primitives count the test expects from the query. The source carries the
  comment \<^verbatim>\<open>Suspisciously, this looks like getTransformFeedbackOutputCount\<close>; the
  divisions are JavaScript's \<^verbatim>\<open>/\<close>, kept as exact quotients. The \<^verbatim>\<open>gl\<close> argument is
  not used.
\<close>

fun getTransformFeedbackPrimitiveCount :: "primitiveType \<Rightarrow> number \<Rightarrow> error + number" where
  "getTransformFeedbackPrimitiveCount TRIANGLES numElements = Inr (numElements - numElements / 3)"
| "getTransformFeedbackPrimitiveCount TRIANGLE_STRIP numElements = Inr (max 0 (numElements - 2))"
| "getTransformFeedbackPrimitiveCount TRIANGLE_FAN numElements = Inr (max 0 (numElements - 2))"
| "getTransformFeedbackPrimitiveCount LINES numElements = Inr (numElements - numElements / 2)"
| "getTransformFeedbackPrimitiveCount LINE_STRIP numElements = Inr (max 0 (numElements - 1))"
| "getTransformFeedbackPrimitiveCount LINE_LOOP numElements =
     Inr (if numElements > 1 then numElements else 0)"
| "getTransformFeedbackPrimitiveCount POINTS numElements = Inr numElements"
| "getTransformFeedbackPrimitiveCount PATCHES numElements = Inl UnrecognizedPrimitiveType"


record DrawCall =
  numElements :: number
  transformFeedbackEnabled :: bool

definition dc :: "number \<Rightarrow> bool \<Rightarrow> DrawCall" where
  "dc n tfEnabled = \<lparr> numElements = n, transformFeedbackEnabled = tfEnabled \<rparr>"

text \<open>
  The loop of \<^verbatim>\<open>computeTransformFeedbackPrimitiveCount\<close> over the draw calls, with the
  running \<^verbatim>\<open>primCount\<close>.
\<close>

fun computeTransformFeedbackPrimitiveCount_loop ::
  "primitiveType \<Rightarrow> DrawCall list \<Rightarrow> number \<Rightarrow> error + number" where
  "computeTransformFeedbackPrimitiveCount_loop primitiveType [] primCount = Inr primCount"
| "computeTransformFeedbackPrimitiveCount_loop primitiveType (call # calls) primCount =
     (if transformFeedbackEnabled call then
        (case getTransformFeedbackPrimitiveCount primitiveType (numElements call) of
           Inl e \<Rightarrow> Inl e
         | Inr c \<Rightarrow> computeTransformFeedbackPrimitiveCount_loop primitiveType calls (primCount + c))
      else computeTransformFeedbackPrimitiveCount_loop primitiveType calls primCount)"

definition computeTransformFeedbackPrimitiveCount ::
  "primitiveType \<Rightarrow> DrawCall list \<Rightarrow> error + number" where
  "computeTransformFeedbackPrimitiveCount primitiveType array =
     computeTransformFeedbackPrimitiveCount_loop primitiveType array 0"

text \<open>\<^verbatim>\<open>TransformFeedbackCase.s_iterate\<close>: the named draw call scripts.\<close>

definition testCases :: "(string \<times> DrawCall list) list" where
  "testCases =
     [(''elemCount1'', [dc 1 True]),
      (''elemCount2'', [dc 2 True]),
      (''elemCount3'', [dc 3 True]),
      (''elemCount4'', [dc 4 True]),
      (''elemCount123'', [dc 123 True]),
      (''basicPause1'', [dc 64 False, dc 64 True, dc 64 True]),
      (''basicPause2'', [dc 13 True, dc 5 True, dc 17 False, dc 3 True, dc 7 False]),
      (''startPaused'', [dc 123 False, dc 123 True]),
      (''random1'', [dc 65 True, dc 135 False, dc 74 True, dc 16 False, dc 226 False,
                     dc 9 True, dc 174 False]),
      (''random2'', [dc 217 True, dc 171 True, dc 147 True, dc 152 False, dc 55 True])]"

definition iterations :: "string list" where
  "iterations =
     [''elemCount1'', ''elemCount2'', ''elemCount3'', ''elemCount4'', ''elemCount123'',
      ''basicPause1'', ''basicPause2'', ''startPaused'', ''random1'', ''random2'']"

section \<open>Transform feedback tests: attributes, layout, comparison\<close>

datatype interpolation = SMOOTH | FLAT | CENTROID

text \<open>
  \<^verbatim>\<open>Varying(name, type, interpolation)\<close> and \<^verbatim>\<open>Attribute(name, type, offset)\<close> are plain
  structs, built with \<^verbatim>\<open>new\<close>.
\<close>

datatype Varying = Varying string VarType interpolation

datatype Attribute = Attribute string VarType int

fun Varying_name :: "Varying \<Rightarrow> string" where
  "Varying_name (Varying name' type' interpolation') = name'"

fun Varying_type :: "Varying \<Rightarrow> VarType" where
  "Varying_type (Varying name' type' interpolation') = type'"

fun Attribute_name :: "Attribute \<Rightarrow> string" where
  "Attribute_name (Attribute name' type' offset') = name'"

fun Attribute_type :: "Attribute \<Rightarrow> VarType" where
  "Attribute_type (Attribute name' type' offset') = type'"

fun Attribute_offset :: "Attribute \<Rightarrow> int" where
  "Attribute_offset (Attribute name' type' offset') = offset'"

record ProgramSpec =
  m_structs :: "StructType list"
  m_varyings :: "Varying list"
  m_transformFeedbackVaryings :: "string list"

definition getVaryings :: "ProgramSpec \<Rightarrow> Varying list" where
  "getVaryings this = m_varyings this"

definition getTransformFeedbackVaryings :: "ProgramSpec \<Rightarrow> string list" where
  "getTransformFeedbackVaryings this = m_transformFeedbackVaryings this"

definition isPointSizeUsed :: "ProgramSpec \<Rightarrow> bool" where
  "isPointSizeUsed this \<longleftrightarrow> ''gl_PointSize'' \<in> set (m_transformFeedbackVaryings this)"

text \<open>
  \<^verbatim>\<open>findAttributeNameEquals\<close> returns the first element with the name, or \<^verbatim>\<open>undefined\<close>
  (\<open>None\<close>) when the loop ends.
\<close>

fun findAttributeNameEquals :: "Varying list \<Rightarrow> string \<Rightarrow> Varying option" where
  "findAttributeNameEquals [] name' = None"
| "findAttributeNameEquals (v # array) name' =
     (if Varying_name v = name' then Some v else findAttributeNameEquals array name')"

subsection \<open>getAttributeName\<close>

text \<open>
  \<^verbatim>\<open>'a_' + varyingName.substr(/^v_/.test(varyingName) ? 2 : 0)\<close>, then a suffix for each
  component of the path. The switch compares with strict equality, so a component whose
  type is \<^verbatim>\<open>null\<close> takes the default case.
\<close>

fun getAttributeName_loop :: "VarTypeComponent list \<Rightarrow> string \<Rightarrow> error + string" where
  "getAttributeName_loop [] str = Inr str"
| "getAttributeName_loop (c # path) str =
     (case type c of
        Some STRUCT_MEMBER \<Rightarrow> getAttributeName_loop path (str @ ''_m'' @ number_toString (index c))
      | Some ARRAY_ELEMENT \<Rightarrow> getAttributeName_loop path (str @ ''_e'' @ number_toString (index c))
      | Some MATRIX_COLUMN \<Rightarrow> getAttributeName_loop path (str @ ''_c'' @ number_toString (index c))
      | Some VECTOR_COMPONENT \<Rightarrow> getAttributeName_loop path (str @ ''_s'' @ number_toString (index c))
      | None \<Rightarrow> Inl InvalidTypeInComponentPath)"

definition getAttributeName :: "string \<Rightarrow> VarTypeComponent list \<Rightarrow> error + string" where
  "getAttributeName varyingName path =
     getAttributeName_loop path
       (''a_'' @ drop (if take 2 varyingName = ''v_'' then 2 else 0) varyingName)"

subsection \<open>computeInputLayout\<close>

text \<open>
  \<^verbatim>\<open>computeInputLayout(attributes, varyings, usePointSize)\<close> pushes to the caller's array
  and returns the stride. The model returns the array with the result: the attributes
  pushed before a throw stay pushed. The inner loop is
  \<^verbatim>\<open>for (vecIter = new VectorTypeIterator(type); !vecIter.end(); vecIter.next())\<close>.
\<close>

fun computeInputLayout_iter ::
  "nat \<Rightarrow> string \<Rightarrow> SubTypeIterator \<Rightarrow> Attribute list \<Rightarrow> int
     \<Rightarrow> (Attribute list \<times> (error + int)) option" where
  "computeInputLayout_iter 0 varyingName vecIter attributes inputStride = None"
| "computeInputLayout_iter (Suc fuel) varyingName vecIter attributes inputStride =
     (if SubTypeIterator_end vecIter then Some (attributes, Inr inputStride)
      else
        (case SubTypeIterator_getType vecIter of
           Inl e \<Rightarrow> Some (attributes, Inl e)
         | Inr ty \<Rightarrow>
             (case getAttributeName varyingName (m_path vecIter) of
                Inl e \<Rightarrow> Some (attributes, Inl e)
              | Inr attrName \<Rightarrow>
                  (case getBasicType ty of
                     Inl e \<Rightarrow> Some (attributes @ [Attribute attrName ty inputStride], Inl e)
                   | Inr basicType \<Rightarrow>
                       (case getDataTypeScalarSize basicType of
                          Inl e \<Rightarrow> Some (attributes @ [Attribute attrName ty inputStride], Inl e)
                        | Inr n \<Rightarrow>
                            (case SubTypeIterator_next fuel VectorTypeIterator_isExpanded vecIter of
                               None \<Rightarrow> None
                             | Some (Inl e) \<Rightarrow>
                                 Some (attributes @ [Attribute attrName ty inputStride], Inl e)
                             | Some (Inr vecIter') \<Rightarrow>
                                 computeInputLayout_iter fuel varyingName vecIter'
                                   (attributes @ [Attribute attrName ty inputStride])
                                   (inputStride + n * 4)))))))"

fun computeInputLayout_loop ::
  "nat \<Rightarrow> Varying list \<Rightarrow> Attribute list \<Rightarrow> int \<Rightarrow> (Attribute list \<times> (error + int)) option" where
  "computeInputLayout_loop fuel [] attributes inputStride = Some (attributes, Inr inputStride)"
| "computeInputLayout_loop fuel (v # varyings) attributes inputStride =
     (case new_SubTypeIterator fuel VectorTypeIterator_isExpanded (Varying_type v) of
        None \<Rightarrow> None
      | Some (Inl e) \<Rightarrow> Some (attributes, Inl e)
      | Some (Inr vecIter) \<Rightarrow>
          (case computeInputLayout_iter fuel (Varying_name v) vecIter attributes inputStride of
             None \<Rightarrow> None
           | Some (attributes', Inl e) \<Rightarrow> Some (attributes', Inl e)
           | Some (attributes', Inr inputStride') \<Rightarrow>
               computeInputLayout_loop fuel varyings attributes' inputStride'))"

definition computeInputLayout ::
  "nat \<Rightarrow> Attribute list \<Rightarrow> Varying list \<Rightarrow> bool \<Rightarrow> (Attribute list \<times> (error + int)) option" where
  "computeInputLayout fuel attributes varyings usePointSize =
     (let attributes1 =
            attributes @ [Attribute ''a_position'' (newTypeBasic FLOAT_VEC4 PRECISION_HIGHP) 0];
          inputStride1 = 0 + 4 * 4;
          attributes2 =
            (if usePointSize
             then attributes1 @ [Attribute ''a_pointSize'' (newTypeBasic FLOAT PRECISION_HIGHP) inputStride1]
             else attributes1);
          inputStride2 = (if usePointSize then inputStride1 + 1 * 4 else inputStride1)
      in computeInputLayout_loop fuel varyings attributes2 inputStride2)"

subsection \<open>compareTransformFeedbackOutput\<close>

text \<open>
  An element of a \<^verbatim>\<open>Float32Array\<close> is a finite number, an infinity or \<^verbatim>\<open>NaN\<close>, and so
  is a difference of two. Finite numbers are reals here and their difference is the
  difference of the reals. An element of a \<^verbatim>\<open>Uint32Array\<close> is a 32-bit word.
\<close>

datatype fnumber = Finite real | PosInfinity | NegInfinity | NaN

fun fnumber_minus :: "fnumber \<Rightarrow> fnumber \<Rightarrow> fnumber" where
  "fnumber_minus (Finite a) (Finite b) = Finite (a - b)"
| "fnumber_minus NaN y = NaN"
| "fnumber_minus x NaN = NaN"
| "fnumber_minus PosInfinity PosInfinity = NaN"
| "fnumber_minus NegInfinity NegInfinity = NaN"
| "fnumber_minus PosInfinity y = PosInfinity"
| "fnumber_minus NegInfinity y = NegInfinity"
| "fnumber_minus (Finite a) PosInfinity = NegInfinity"
| "fnumber_minus (Finite a) NegInfinity = PosInfinity"

fun Math_abs :: "fnumber \<Rightarrow> fnumber" where
  "Math_abs (Finite a) = Finite \<bar>a\<bar>"
| "Math_abs PosInfinity = PosInfinity"
| "Math_abs NegInfinity = PosInfinity"
| "Math_abs NaN = NaN"

fun fnumber_less :: "fnumber \<Rightarrow> fnumber \<Rightarrow> bool" where
  "fnumber_less (Finite a) (Finite b) \<longleftrightarrow> a < b"
| "fnumber_less NaN y \<longleftrightarrow> False"
| "fnumber_less x NaN \<longleftrightarrow> False"
| "fnumber_less PosInfinity y \<longleftrightarrow> False"
| "fnumber_less NegInfinity NegInfinity \<longleftrightarrow> False"
| "fnumber_less NegInfinity y \<longleftrightarrow> True"
| "fnumber_less (Finite a) PosInfinity \<longleftrightarrow> True"
| "fnumber_less (Finite a) NegInfinity \<longleftrightarrow> False"

text \<open>
  The comparison of one component, the body of the innermost loop up to the test of
  \<^verbatim>\<open>isEqual\<close>. \<^verbatim>\<open>inFloat\<close> and \<^verbatim>\<open>outFloat\<close> are what the one-element \<^verbatim>\<open>Float32Array\<close> views
  of the input and output buffers hold at the component's offsets, \<^verbatim>\<open>inUint\<close> and
  \<^verbatim>\<open>outUint\<close> what the \<^verbatim>\<open>Uint32Array\<close> views hold there. \<^verbatim>\<open>DE_ASSERT(false)\<close> throws.
\<close>

definition compareTransformFeedbackOutput_isEqual ::
  "string \<Rightarrow> precision \<Rightarrow> fnumber \<Rightarrow> fnumber \<Rightarrow> 32 word \<Rightarrow> 32 word \<Rightarrow> error + bool" where
  "compareTransformFeedbackOutput_isEqual scalarType precision' inFloat outFloat inUint outUint =
     (if scalarType = ''float'' then
        (let difInOut = fnumber_minus inFloat outFloat in
           (case precision' of
              PRECISION_HIGHP \<Rightarrow> Inr (fnumber_less (Math_abs difInOut) (Finite 0.1))
            | PRECISION_MEDIUMP \<Rightarrow> Inr (fnumber_less (Math_abs difInOut) (Finite 0.1))
            | PRECISION_LOWP \<Rightarrow> Inr (fnumber_less (Math_abs difInOut) (Finite 0.1))
            | PRECISION_LAST \<Rightarrow> Inl AssertFailed))
      else Inr (inUint = outUint))"

text \<open>
  The same for a component of an attribute: the scalar type and the precision are read
  from the attribute's type at the head of the attribute loop.
\<close>

definition compareTransformFeedbackOutput_component ::
  "Attribute \<Rightarrow> fnumber \<Rightarrow> fnumber \<Rightarrow> 32 word \<Rightarrow> 32 word \<Rightarrow> error + bool" where
  "compareTransformFeedbackOutput_component attribute inFloat outFloat inUint outUint =
     (case getBasicType (Attribute_type attribute) of
        Inl e \<Rightarrow> Inl e
      | Inr basicType \<Rightarrow>
          (case getDataTypeScalarSize basicType of
             Inl e \<Rightarrow> Inl e
           | Inr numComponents \<Rightarrow>
               (case getPrecision (Attribute_type attribute) of
                  Inl e \<Rightarrow> Inl e
                | Inr precision' \<Rightarrow>
                    (case getDataTypeScalarType basicType of
                       Inl e \<Rightarrow> Inl e
                     | Inr scalarType \<Rightarrow>
                         compareTransformFeedbackOutput_isEqual scalarType precision'
                           inFloat outFloat inUint outUint))))"

subsection \<open>hasArraysInTFVaryings and the classification of a failed program\<close>

fun hasArraysInTFVaryings_loop :: "ProgramSpec \<Rightarrow> string list \<Rightarrow> error + bool" where
  "hasArraysInTFVaryings_loop spec [] = Inr False"
| "hasArraysInTFVaryings_loop spec (tfVar # rest) =
     (case parseVariableName tfVar of
        Inl e \<Rightarrow> Inl e
      | Inr varName \<Rightarrow>
          if findAttributeNameEquals (getVaryings spec) varName \<noteq> None then Inr True
          else hasArraysInTFVaryings_loop spec rest)"

definition hasArraysInTFVaryings :: "ProgramSpec \<Rightarrow> error + bool" where
  "hasArraysInTFVaryings spec = hasArraysInTFVaryings_loop spec (getTransformFeedbackVaryings spec)"

text \<open>
  What \<^verbatim>\<open>init\<close> reads of the \<^verbatim>\<open>ShaderProgram\<close> it has built: \<^verbatim>\<open>shadersOK\<close>, the
  conjunction of the shaders' compile status, and \<^verbatim>\<open>getProgramInfo().linkOk\<close>, the link
  status. \<^verbatim>\<open>isOk()\<close> returns \<^verbatim>\<open>this.shadersOK\<close>.
\<close>

record ShaderProgram =
  shadersOK :: bool
  linkOk :: bool

definition isOk :: "ShaderProgram \<Rightarrow> bool" where
  "isOk this = shadersOK this"

text \<open>
  The part of \<^verbatim>\<open>TransformFeedbackCase.init\<close> that classifies a program that is not ok.
  \<^verbatim>\<open>supported\<close> is the outcome of \<^verbatim>\<open>isProgramSupported(gl, spec, bufferMode)\<close>, which
  reads the limits of the GL context. The result is the error thrown, or nothing.
\<close>

definition init_classify ::
  "ShaderProgram \<Rightarrow> error + bool \<Rightarrow> ProgramSpec \<Rightarrow> error + unit" where
  "init_classify m_program supported spec =
     (if \<not> isOk m_program then
        (let linkFail = shadersOK m_program \<and> \<not> linkOk m_program in
           if linkFail then
             (case supported of
                Inl e \<Rightarrow> Inl e
              | Inr s \<Rightarrow>
                  if \<not> s then Inl NotSupported
                  else (case hasArraysInTFVaryings spec of
                          Inl e \<Rightarrow> Inl e
                        | Inr h \<Rightarrow> if h then Inl CapturingArraysNotSupported else Inl LinkFailed))
           else Inl CompileFailed)
      else Inr ())"

section \<open>Facts about the arithmetic\<close>





lemma round_ties_even_of_int: "round_ties_even (of_int m) = m"
  by (simp add: round_ties_even_def)

lemma to_double_of_int:
  assumes "\<bar>n\<bar> < 2 ^ 53"
  shows "to_double (of_int n) = of_int n"
proof (cases "n = 0")
  case True
  then show ?thesis by (simp add: to_double_def)
next
  case False
  then have pos: "0 < \<bar>n\<bar>" by simp
  then have one: "1 \<le> \<bar>real_of_int n\<bar>"
  proof -
    from pos have "1 \<le> \<bar>n\<bar>" by linarith
    then have "real_of_int 1 \<le> real_of_int \<bar>n\<bar>" by (simp only: of_int_le_iff)
    then show ?thesis by simp
  qed
  have fl: "\<lfloor>\<bar>real_of_int n\<bar>\<rfloor> = \<bar>n\<bar>"
  proof -
    have "\<bar>real_of_int n\<bar> = real_of_int \<bar>n\<bar>" by simp
    then show ?thesis by (simp only: floor_of_int)
  qed
  from assms have "bitlen \<bar>n\<bar> \<le> 53"
    by (simp add: bitlen_le_iff_power)
  moreover from pos have "1 \<le> bitlen \<bar>n\<bar>"
    using bitlen_eq_zero_iff [of "\<bar>n\<bar>"] bitlen_nonneg [of "\<bar>n\<bar>"] by linarith
  ultimately obtain k :: nat where k: "max (double_exponent (of_int n) - 52) (- 1074) = - int k"
    using one fl by (intro that [of "nat (53 - bitlen \<bar>n\<bar>)"]) (simp add: double_exponent_def)
  then have ulp: "double_ulp (of_int n) = 1 / 2 ^ k"
    by (cases "k = 0") (simp_all add: double_ulp_def pow2_def)
  have "real_of_int n / (1 / 2 ^ k) = of_int (n * 2 ^ k)"
    by simp
  then have "round_ties_even (of_int n / double_ulp (of_int n)) = n * 2 ^ k"
    using ulp round_ties_even_of_int by metis
  with ulp False show ?thesis
    by (simp add: to_double_def)
qed

lemma to_double_numeral [simp]:
  "numeral k < (2 :: int) ^ 53 \<Longrightarrow> to_double (numeral k) = numeral k"
  using to_double_of_int [of "numeral k"] by simp

lemma to_double_0 [simp]: "to_double 0 = 0"
  by (simp add: to_double_def)

lemma to_double_1 [simp]: "to_double 1 = 1"
  using to_double_of_int [of 1] by simp

section \<open>Facts about type paths\<close>

lemma isDataTypeMatrix_rows:
  assumes "isDataTypeMatrix d"
  shows "\<exists>rows. getDataTypeMatrixNumRows d = Inr rows \<and> rows \<in> {2, 3, 4}"
  using assms by (auto simp: isDataTypeMatrix_def getDataTypeMatrixNumRows_def switch_def)

lemma isDataTypeVector_floatVec:
  assumes "rows \<in> {2, 3, 4}"
  shows "isDataTypeVector (getDataTypeFloatVec rows)"
    and "getDataTypeScalarTypeAsDataType (getDataTypeFloatVec rows) = Inr FLOAT"
  using assms
  by (auto simp: isDataTypeVector_def getDataTypeFloatVec_def getDataTypeVector_def
      getDataTypeScalarTypeAsDataType_def switch_def)

lemma isDataTypeVector_scalar:
  assumes "isDataTypeVector d"
  shows "\<exists>s. getDataTypeScalarTypeAsDataType d = Inr s"
  using assms by (auto simp: isDataTypeVector_def getDataTypeScalarTypeAsDataType_def switch_def)

lemma isValidTypePath_loop_no_error: "isValidTypePath_loop t p \<noteq> Inl e"
proof (induction t p rule: isValidTypePath_loop.induct)
  case (1 curType)
  then show ?case by simp
next
  case (2 curType element rest)
  show ?case
  proof (cases curType)
    case (VarTypeBasic d pr)
    then show ?thesis by simp
  next
    case (VarTypeArray el n)
    then show ?thesis using 2 by (simp split: sum.splits)
  next
    case (VarTypeStruct s)
    then show ?thesis using 2
      by (auto simp: getType_def getMember_def inBounds_def getSize_def split: sum.splits option.splits)
  qed
qed


lemma getVarType_loop_agrees:
  "isValidTypePath_loop t p = Inr (Some (c, r)) \<Longrightarrow> getVarType_loop t p = Inr (c, r)"
proof (induction t p rule: isValidTypePath_loop.induct)
  case (1 curType)
  then show ?case by simp
next
  case (2 curType element rest)
  show ?case
  proof (cases curType)
    case (VarTypeBasic d pr)
    then show ?thesis using 2 by (auto split: if_splits)
  next
    case (VarTypeArray el n)
    then show ?thesis using 2 by (auto split: if_splits)
  next
    case (VarTypeStruct s)
    then show ?thesis using 2 by (auto split: if_splits sum.splits)
  qed
qed

lemma isValidTypePath_loop_split:
  "isValidTypePath_loop t p = Inr (Some (c, r)) \<Longrightarrow>
     \<exists>pre. p = pre @ r \<and> isValidTypePath_loop t pre = Inr (Some (c, []))
       \<and> (r \<noteq> [] \<longrightarrow> type (hd r) \<noteq> Some STRUCT_MEMBER \<and> type (hd r) \<noteq> Some ARRAY_ELEMENT)"
proof (induction t p rule: isValidTypePath_loop.induct)
  case (1 curType)
  then show ?case by simp
next
  case (2 curType element rest)
  consider (member) "type element = Some STRUCT_MEMBER"
    | (elem) "type element = Some ARRAY_ELEMENT"
    | (other) "type element \<noteq> Some STRUCT_MEMBER" "type element \<noteq> Some ARRAY_ELEMENT"
    by blast
  then show ?case
  proof cases
    case member
    with 2(3) obtain s t' where s: "curType = VarTypeStruct s"
      and ib: "inBounds (index element) 0 (getSize s)"
      and t': "getType (getMember s (index element)) = Inr t'"
      and rec: "isValidTypePath_loop t' rest = Inr (Some (c, r))"
      by (cases curType) (auto split: if_splits sum.splits)
    from 2(1) [OF member _ _ _ t' rec] s ib
    obtain pre where pre: "rest = pre @ r" "isValidTypePath_loop t' pre = Inr (Some (c, []))"
      "r \<noteq> [] \<longrightarrow> type (hd r) \<noteq> Some STRUCT_MEMBER \<and> type (hd r) \<noteq> Some ARRAY_ELEMENT"
      by auto
    have "isValidTypePath_loop curType (element # pre) = Inr (Some (c, []))"
      using member s ib t' pre(2) by simp
    then show ?thesis using pre(1,3) by (intro exI [of _ "element # pre"]) simp
  next
    case elem
    with 2(3) obtain el n where a: "curType = VarTypeArray el n"
      and ib: "\<not> (n \<noteq> UNSIZED_ARRAY \<and> \<not> inBounds (index element) 0 n)"
      and rec: "isValidTypePath_loop el rest = Inr (Some (c, r))"
      by (cases curType) (auto split: if_splits sum.splits)
    have ne: "type element \<noteq> Some STRUCT_MEMBER" using elem by simp
    from 2(2) [OF ne elem _ _ _ _ rec] a ib
    obtain pre where pre: "rest = pre @ r" "isValidTypePath_loop el pre = Inr (Some (c, []))"
      "r \<noteq> [] \<longrightarrow> type (hd r) \<noteq> Some STRUCT_MEMBER \<and> type (hd r) \<noteq> Some ARRAY_ELEMENT"
      by auto
    have "isValidTypePath_loop curType (element # pre) = Inr (Some (c, []))"
      using elem a ib pre(2) by auto
    then show ?thesis using pre(1,3) by (intro exI [of _ "element # pre"]) simp
  next
    case other
    with 2(3) have "c = curType" "r = element # rest" by auto
    then show ?thesis using other by (intro exI [of _ "[]"]) simp
  qed
qed

lemma isValidTypePath_basic_shape:
  assumes "isValidTypePath_basic c el rest = Inr True"
  shows "\<exists>bt prec. c = VarTypeBasic bt prec \<and>
     ((type el = Some MATRIX_COLUMN \<and> isDataTypeMatrix bt
        \<and> (rest = [] \<or> (\<exists>v. rest = [v] \<and> type v = Some VECTOR_COMPONENT)))
      \<or> (type el = Some VECTOR_COMPONENT \<and> isDataTypeVector bt \<and> rest = []))"
proof (cases c)
  case (VarTypeBasic bt prec)
  then show ?thesis
    using assms
    by (auto simp: isValidTypePath_basic_def isValidTypePath_vector_def
        split: if_splits sum.splits list.splits)
next
  case (VarTypeArray el n)
  then show ?thesis using assms by (auto simp: isValidTypePath_basic_def split: if_splits)
next
  case (VarTypeStruct s)
  then show ?thesis using assms by (auto simp: isValidTypePath_basic_def split: if_splits)
qed

lemma getVarType_basic_column:
  assumes "type el = Some MATRIX_COLUMN" and "getDataTypeMatrixNumRows bt = Inr rows"
  shows "getVarType_basic (VarTypeBasic bt prec) [el] = Inr (VarTypeBasic (getDataTypeFloatVec rows) prec)"
  using assms
  by (simp add: getVarType_basic_def getVarType_column_def getVarType_component_def newTypeBasic_def)

lemma getVarType_basic_column_component:
  assumes "type el = Some MATRIX_COLUMN" and "getDataTypeMatrixNumRows bt = Inr rows"
    and "type v = Some VECTOR_COMPONENT"
    and "getDataTypeScalarTypeAsDataType (getDataTypeFloatVec rows) = Inr s"
  shows "getVarType_basic (VarTypeBasic bt prec) [el, v] = Inr (VarTypeBasic s prec)"
  using assms
  by (simp add: getVarType_basic_def getVarType_column_def getVarType_component_def newTypeBasic_def)

lemma getVarType_basic_component:
  assumes "type el = Some VECTOR_COMPONENT" and "getDataTypeScalarTypeAsDataType bt = Inr s"
  shows "getVarType_basic (VarTypeBasic bt prec) [el] = Inr (VarTypeBasic s prec)"
  using assms
  by (simp add: getVarType_basic_def getVarType_column_def getVarType_component_def newTypeBasic_def)

lemma isValidTypePath_basic_resolves:
  assumes "isValidTypePath_basic c el rest = Inr True"
  shows "\<exists>bt prec bt'. c = VarTypeBasic bt prec
     \<and> getVarType_basic c (el # rest) = Inr (VarTypeBasic bt' prec)"
proof -
  from isValidTypePath_basic_shape [OF assms]
  obtain bt prec where c: "c = VarTypeBasic bt prec"
    and shape: "(type el = Some MATRIX_COLUMN \<and> isDataTypeMatrix bt
        \<and> (rest = [] \<or> (\<exists>v. rest = [v] \<and> type v = Some VECTOR_COMPONENT)))
      \<or> (type el = Some VECTOR_COMPONENT \<and> isDataTypeVector bt \<and> rest = [])"
    by blast
  from shape show ?thesis
  proof (elim disjE conjE exE)
    assume m: "type el = Some MATRIX_COLUMN" "isDataTypeMatrix bt" and "rest = []"
    then show ?thesis
      using c isDataTypeMatrix_rows [OF m(2)] getVarType_basic_column [OF m(1)] by auto
  next
    fix v
    assume m: "type el = Some MATRIX_COLUMN" "isDataTypeMatrix bt"
      and v: "rest = [v]" "type v = Some VECTOR_COMPONENT"
    from isDataTypeMatrix_rows [OF m(2)] obtain rows
      where rows: "getDataTypeMatrixNumRows bt = Inr rows" "rows \<in> {2, 3, 4}" by blast
    show ?thesis
      using c v(1) getVarType_basic_column_component [OF m(1) rows(1) v(2)
          isDataTypeVector_floatVec(2) [OF rows(2)]]
      by auto
  next
    assume v: "type el = Some VECTOR_COMPONENT" "isDataTypeVector bt" and "rest = []"
    then show ?thesis
      using c isDataTypeVector_scalar [OF v(2)] getVarType_basic_component [OF v(1)] by auto
  qed
qed

lemma getVarType_of_valid:
  assumes "isValidTypePath rootType path = Inr True"
  shows "\<exists>t. getVarType rootType path = Inr t"
proof -
  from assms obtain c r where loop: "isValidTypePath_loop rootType path = Inr (Some (c, r))"
    and tail: "r = [] \<or> (\<exists>el rest. r = el # rest \<and> isValidTypePath_basic c el rest = Inr True)"
    by (auto simp: isValidTypePath_def split: sum.splits option.splits list.splits)
  have gl: "getVarType_loop rootType path = Inr (c, r)"
    by (rule getVarType_loop_agrees [OF loop])
  from tail show ?thesis
  proof
    assume "r = []"
    then show ?thesis using assms gl by (simp add: getVarType_def)
  next
    assume "\<exists>el rest. r = el # rest \<and> isValidTypePath_basic c el rest = Inr True"
    then obtain el rest where r: "r = el # rest"
      and b: "isValidTypePath_basic c el rest = Inr True" by blast
    from isValidTypePath_basic_resolves [OF b] show ?thesis
      using assms gl r by (auto simp: getVarType_def)
  qed
qed

lemma getVarType_throws_iff:
  "isl (getVarType rootType path) \<longleftrightarrow> isValidTypePath rootType path \<noteq> Inr True"
proof (cases "isValidTypePath rootType path")
  case (Inl e)
  then show ?thesis by (simp add: getVarType_def)
next
  case (Inr valid)
  show ?thesis
  proof (cases valid)
    case True
    with Inr getVarType_of_valid [of rootType path] show ?thesis by auto
  next
    case False
    with Inr show ?thesis by (simp add: getVarType_def)
  qed
qed


lemma isValidTypePath_loop_append:
  "isValidTypePath_loop t p = Inr (Some (c, [])) \<Longrightarrow>
     isValidTypePath_loop t (p @ r) = isValidTypePath_loop c r"
proof (induction t p rule: isValidTypePath_loop.induct)
  case (1 curType)
  then show ?case by simp
next
  case (2 curType element rest)
  then show ?case
    by (cases curType) (auto split: if_splits sum.splits)
qed

lemma isValidTypePath_loop_consumed:
  "isValidTypePath_loop t p = Inr (Some (c, [])) \<Longrightarrow>
     \<forall>e \<in> set p. type e = Some STRUCT_MEMBER \<or> type e = Some ARRAY_ELEMENT"
proof (induction t p rule: isValidTypePath_loop.induct)
  case (1 curType)
  then show ?case by simp
next
  case (2 curType element rest)
  then show ?case
    by (cases curType) (auto split: if_splits sum.splits)
qed

lemma getVarType_of_loop:
  assumes "isValidTypePath_loop rootType p = Inr (Some (c, []))"
  shows "getVarType rootType p = Inr c"
  using assms getVarType_loop_agrees [OF assms]
  by (simp add: getVarType_def isValidTypePath_def)

lemma getVarType_of_loop_basic:
  assumes "isValidTypePath_loop rootType p = Inr (Some (c, el # rest))"
    and "isValidTypePath_basic c el rest = Inr True"
  shows "getVarType rootType p = getVarType_basic c (el # rest)"
  using assms getVarType_loop_agrees [OF assms(1)]
  by (simp add: getVarType_def isValidTypePath_def)

lemma valid_tail_cases:
  assumes "isValidTypePath rootType path = Inr True"
  obtains (whole) c where "isValidTypePath_loop rootType path = Inr (Some (c, []))"
  | (column) p bt prec el where "path = p @ [el]" "type el = Some MATRIX_COLUMN"
      "isValidTypePath_loop rootType p = Inr (Some (VarTypeBasic bt prec, []))"
      "isValidTypePath_loop rootType path = Inr (Some (VarTypeBasic bt prec, [el]))"
      "isValidTypePath_basic (VarTypeBasic bt prec) el [] = Inr True"
      "isDataTypeMatrix bt"
  | (column_component) p bt prec el v where "path = p @ [el, v]" "type el = Some MATRIX_COLUMN"
      "type v = Some VECTOR_COMPONENT"
      "isValidTypePath_loop rootType p = Inr (Some (VarTypeBasic bt prec, []))"
      "isValidTypePath_loop rootType path = Inr (Some (VarTypeBasic bt prec, [el, v]))"
      "isValidTypePath_basic (VarTypeBasic bt prec) el [v] = Inr True"
      "isDataTypeMatrix bt"
  | (component) p bt prec el where "path = p @ [el]" "type el = Some VECTOR_COMPONENT"
      "isValidTypePath_loop rootType p = Inr (Some (VarTypeBasic bt prec, []))"
      "isValidTypePath_loop rootType path = Inr (Some (VarTypeBasic bt prec, [el]))"
      "isValidTypePath_basic (VarTypeBasic bt prec) el [] = Inr True"
      "isDataTypeVector bt"
proof -
  from assms obtain c r where loop: "isValidTypePath_loop rootType path = Inr (Some (c, r))"
    and tail: "r = [] \<or> (\<exists>el rest. r = el # rest \<and> isValidTypePath_basic c el rest = Inr True)"
    by (auto simp: isValidTypePath_def split: sum.splits option.splits list.splits)
  from isValidTypePath_loop_split [OF loop] obtain p where
    p: "path = p @ r" "isValidTypePath_loop rootType p = Inr (Some (c, []))" by blast
  from tail show thesis
  proof
    assume "r = []"
    then show thesis using loop whole by simp
  next
    assume "\<exists>el rest. r = el # rest \<and> isValidTypePath_basic c el rest = Inr True"
    then obtain el rest where r: "r = el # rest"
      and b: "isValidTypePath_basic c el rest = Inr True" by blast
    from isValidTypePath_basic_shape [OF b] obtain bt prec where c: "c = VarTypeBasic bt prec"
      and shape: "(type el = Some MATRIX_COLUMN \<and> isDataTypeMatrix bt
          \<and> (rest = [] \<or> (\<exists>v. rest = [v] \<and> type v = Some VECTOR_COMPONENT)))
        \<or> (type el = Some VECTOR_COMPONENT \<and> isDataTypeVector bt \<and> rest = [])"
      by blast
    from shape show thesis
    proof (elim disjE conjE exE)
      assume "type el = Some MATRIX_COLUMN" "isDataTypeMatrix bt" "rest = []"
      then show thesis using column [of p el bt prec] p loop r b c by simp
    next
      fix v
      assume "type el = Some MATRIX_COLUMN" "isDataTypeMatrix bt" "rest = [v]"
        "type v = Some VECTOR_COMPONENT"
      then show thesis using column_component [of p el v bt prec] p loop r b c by simp
    next
      assume "type el = Some VECTOR_COMPONENT" "isDataTypeVector bt" "rest = []"
      then show thesis using component [of p el bt prec] p loop r b c by simp
    qed
  qed
qed

lemma getVarType_ends_in_column:
  assumes valid: "isValidTypePath rootType (pre @ [c]) = Inr True"
    and col: "type c = Some MATRIX_COLUMN"
  shows "\<exists>m prec rows. getVarType rootType pre = Inr (VarTypeBasic m prec)
     \<and> isDataTypeMatrix m \<and> getDataTypeMatrixNumRows m = Inr rows
     \<and> getVarType rootType (pre @ [c]) = Inr (newTypeBasic (getDataTypeFloatVec rows) prec)"
  using valid
proof (cases rule: valid_tail_cases)
  case (whole t)
  from isValidTypePath_loop_consumed [OF whole] col show ?thesis by simp
next
  case (column p bt prec el)
  then have eq: "p = pre" "el = c" by simp_all
  from isDataTypeMatrix_rows [OF column(6)] obtain rows
    where rows: "getDataTypeMatrixNumRows bt = Inr rows" by blast
  have "getVarType rootType pre = Inr (VarTypeBasic bt prec)"
    using getVarType_of_loop [OF column(3)] eq by simp
  moreover have "getVarType rootType (pre @ [c]) = Inr (VarTypeBasic (getDataTypeFloatVec rows) prec)"
    using getVarType_of_loop_basic [OF column(4,5)] getVarType_basic_column [OF column(2) rows] eq
    by simp
  ultimately show ?thesis using column(6) rows by (auto simp: newTypeBasic_def)
next
  case (column_component p bt prec el v)
  then show ?thesis using col by simp
next
  case (component p bt prec el)
  then show ?thesis using col by simp
qed

lemma getVarType_ends_in_component:
  assumes valid: "isValidTypePath rootType (pre @ [c]) = Inr True"
    and comp: "type c = Some VECTOR_COMPONENT"
  shows "\<exists>v prec s. getVarType rootType pre = Inr (VarTypeBasic v prec)
     \<and> isDataTypeVector v \<and> getDataTypeScalarTypeAsDataType v = Inr s
     \<and> getVarType rootType (pre @ [c]) = Inr (newTypeBasic s prec)"
  using valid
proof (cases rule: valid_tail_cases)
  case (whole t)
  from isValidTypePath_loop_consumed [OF whole] comp show ?thesis by simp
next
  case (column p bt prec el)
  then show ?thesis using comp by simp
next
  case (column_component p bt prec el v)
  then have eq: "pre = p @ [el]" "v = c" by simp_all
  from isDataTypeMatrix_rows [OF column_component(7)] obtain rows
    where rows: "getDataTypeMatrixNumRows bt = Inr rows" "rows \<in> {2, 3, 4}" by blast
  have loop_pre: "isValidTypePath_loop rootType pre = Inr (Some (VarTypeBasic bt prec, [el]))"
    using isValidTypePath_loop_append [OF column_component(4), of "[el]"] column_component(2) eq
    by simp
  have valid_pre: "isValidTypePath_basic (VarTypeBasic bt prec) el [] = Inr True"
    using column_component(2,7) rows(1)
    by (simp add: isValidTypePath_basic_def isValidTypePath_vector_def)
  have "getVarType rootType pre = Inr (VarTypeBasic (getDataTypeFloatVec rows) prec)"
    using getVarType_of_loop_basic [OF loop_pre valid_pre]
      getVarType_basic_column [OF column_component(2) rows(1)] by simp
  moreover have "getVarType rootType (pre @ [c]) = Inr (VarTypeBasic FLOAT prec)"
    using getVarType_of_loop_basic [OF column_component(5,6)]
      getVarType_basic_column_component [OF column_component(2) rows(1) column_component(3)
        isDataTypeVector_floatVec(2) [OF rows(2)]] column_component(1) eq
    by simp
  ultimately show ?thesis
    using isDataTypeVector_floatVec [OF rows(2)] by (auto simp: newTypeBasic_def)
next
  case (component p bt prec el)
  then have eq: "p = pre" "el = c" by simp_all
  from isDataTypeVector_scalar [OF component(6)] obtain s
    where s: "getDataTypeScalarTypeAsDataType bt = Inr s" by blast
  have "getVarType rootType pre = Inr (VarTypeBasic bt prec)"
    using getVarType_of_loop [OF component(3)] eq by simp
  moreover have "getVarType rootType (pre @ [c]) = Inr (VarTypeBasic s prec)"
    using getVarType_of_loop_basic [OF component(4,5)] getVarType_basic_component [OF component(2) s] eq
    by simp
  ultimately show ?thesis using component(6) s by (auto simp: newTypeBasic_def)
qed


lemma isValidTypePath_basic_error:
  assumes "isValidTypePath_basic c el rest = Inl e"
  shows "e = NotAMatrixOrAVector"
proof (cases c)
  case (VarTypeBasic bt prec)
  show ?thesis
  proof (cases "type el = Some MATRIX_COLUMN")
    case True
    show ?thesis
    proof (cases "isDataTypeMatrix bt")
      case m: True
      from isDataTypeMatrix_rows [OF m] obtain rows
        where rows: "getDataTypeMatrixNumRows bt = Inr rows" "rows \<in> {2, 3, 4}" by blast
      show ?thesis
        using assms VarTypeBasic True m rows isDataTypeVector_floatVec [OF rows(2)]
        by (auto simp: isValidTypePath_basic_def isValidTypePath_vector_def
            split: if_splits list.splits)
    next
      case False
      then show ?thesis
        using assms VarTypeBasic True by (simp add: isValidTypePath_basic_def)
    qed
  next
    case False
    show ?thesis
    proof (cases "isDataTypeVector bt")
      case v: True
      from isDataTypeVector_scalar [OF v] obtain s
        where "getDataTypeScalarTypeAsDataType bt = Inr s" by blast
      then show ?thesis
        using assms VarTypeBasic False
        by (auto simp: isValidTypePath_basic_def isValidTypePath_vector_def split: if_splits)
    next
      case nv: False
      then show ?thesis
        using assms VarTypeBasic False
        by (auto simp: isValidTypePath_basic_def isValidTypePath_vector_def split: if_splits)
    qed
  qed
next
  case (VarTypeArray el' n)
  then show ?thesis using assms by (auto simp: isValidTypePath_basic_def split: if_splits)
next
  case (VarTypeStruct s)
  then show ?thesis using assms by (auto simp: isValidTypePath_basic_def split: if_splits)
qed

lemma isValidTypePath_error:
  assumes "isValidTypePath rootType path = Inl e"
  shows "e = NotAMatrixOrAVector"
  using assms isValidTypePath_loop_no_error [of rootType path] isValidTypePath_basic_error
  by (auto simp: isValidTypePath_def split: sum.splits option.splits list.splits)

lemma isValidTypePath_basic_typed:
  assumes "type el = Some MATRIX_COLUMN \<or> type el = Some VECTOR_COMPONENT"
  shows "\<not> isl (isValidTypePath_basic c el rest)"
proof
  assume "isl (isValidTypePath_basic c el rest)"
  then obtain e where e: "isValidTypePath_basic c el rest = Inl e"
    by (cases "isValidTypePath_basic c el rest") auto
  from isValidTypePath_basic_error [OF e] have "e = NotAMatrixOrAVector" .
  with e assms show False
  proof (cases c)
    case (VarTypeBasic bt prec)
    show ?thesis
    proof (cases "type el = Some MATRIX_COLUMN")
      case True
      show ?thesis
      proof (cases "isDataTypeMatrix bt")
        case m: True
        from isDataTypeMatrix_rows [OF m] obtain rows
          where rows: "getDataTypeMatrixNumRows bt = Inr rows" "rows \<in> {2, 3, 4}" by blast
        show ?thesis
          using e VarTypeBasic True m rows isDataTypeVector_floatVec [OF rows(2)]
          by (auto simp: isValidTypePath_basic_def isValidTypePath_vector_def
              split: if_splits list.splits)
      next
        case False
        then show ?thesis
          using e VarTypeBasic True by (simp add: isValidTypePath_basic_def)
      qed
    next
      case False
      with assms have v: "type el = Some VECTOR_COMPONENT" by simp
      show ?thesis
      proof (cases "isDataTypeVector bt")
        case True
        from isDataTypeVector_scalar [OF True] obtain s
          where "getDataTypeScalarTypeAsDataType bt = Inr s" by blast
        then show ?thesis
          using e VarTypeBasic v
          by (auto simp: isValidTypePath_basic_def isValidTypePath_vector_def split: if_splits)
      next
        case False
        then show ?thesis
          using e VarTypeBasic v
          by (auto simp: isValidTypePath_basic_def isValidTypePath_vector_def split: if_splits)
      qed
    qed
  next
    case (VarTypeArray el' n)
    then show ?thesis using e assms by (auto simp: isValidTypePath_basic_def split: if_splits)
  next
    case (VarTypeStruct s)
    then show ?thesis using e assms by (auto simp: isValidTypePath_basic_def split: if_splits)
  qed
qed

lemma isValidTypePath_typed_no_throw:
  assumes "\<forall>c\<in>set path. type c \<noteq> None"
  shows "\<not> isl (isValidTypePath rootType path)"
proof (cases "isValidTypePath_loop rootType path")
  case (Inl e)
  with isValidTypePath_loop_no_error show ?thesis by blast
next
  case (Inr r)
  show ?thesis
  proof (cases r)
    case None
    with Inr show ?thesis by (simp add: isValidTypePath_def)
  next
    case (Some cr)
    obtain c rest where cr: "cr = (c, rest)" by (cases cr)
    show ?thesis
    proof (cases rest)
      case Nil
      with Inr Some cr show ?thesis by (simp add: isValidTypePath_def)
    next
      case (Cons el rest')
      from isValidTypePath_loop_split [of rootType path c rest] Inr Some cr Cons
      obtain pre where pre: "path = pre @ el # rest'"
        and hd: "type el \<noteq> Some STRUCT_MEMBER" "type el \<noteq> Some ARRAY_ELEMENT"
        by auto
      from pre assms have "type el \<noteq> None" by simp
      with hd have "type el = Some MATRIX_COLUMN \<or> type el = Some VECTOR_COMPONENT"
        by (cases "type el") (auto intro: ComponentType.exhaust)
      from isValidTypePath_basic_typed [OF this] Inr Some cr Cons show ?thesis
        by (simp add: isValidTypePath_def)
    qed
  qed
qed

section \<open>Evaluation\<close>

text \<open>The definitions a concrete run unfolds.\<close>

lemmas path_eval =
  getVarType_def isValidTypePath_def isValidTypePath_basic_def isValidTypePath_vector_def
  getVarType_basic_def getVarType_column_def getVarType_component_def
  new_VarTypeComponent_def newTypeBasic_def newTypeArray_def newTypeStruct_def
  isDataTypeMatrix_def isDataTypeVector_def isDataTypeScalar_def isDataTypeScalarOrVector_def
  getDataTypeMatrixNumRows_def getDataTypeMatrixNumColumns_def getDataTypeScalarSize_def
  getDataTypeScalarTypeAsDataType_def getDataTypeFloatVec_def getDataTypeVector_def switch_def
  ComponentType_length_def ComponentType_keys_def inBounds_def UNSIZED_ARRAY_def Let_def

lemmas iterator_eval =
  VectorTypeIterator_paths_def new_SubTypeIterator_def findNext_def findNext_child_def
  SubTypeIterator_getType_def SubTypeIterator_end_def SubTypeIterator_next_def
  VectorTypeIterator_isExpanded_def removeTraversed_hasNext_def removeTraversed.simps

lemmas parser_eval =
  TypeAccessFormat_toString_def number_toString_def string_of_nat.simps parseTypePath_loop.simps
  parseTypePath_def new_VarTokenizer_def advance_def getToken_def getIdentifier_def getNumber_def
  parseInt_def isNum_def isAlpha_def isIdentifierChar_def parseTypePath_subscript_def
  parseTypePath_round_def parseTypePath_member_def parseTypePath_element_def
  parseVariableName_def getSize_def

section \<open>Facts about the component comparison\<close>

lemma fnumber_close:
  "fnumber_less (Math_abs (fnumber_minus x y)) (Finite d)
     \<longleftrightarrow> (\<exists>a b. x = Finite a \<and> y = Finite b \<and> \<bar>a - b\<bar> < d)"
  by (cases x; cases y; simp)

lemma isEqual_float:
  assumes "precision' \<noteq> PRECISION_LAST"
  shows "compareTransformFeedbackOutput_isEqual ''float'' precision' inFloat outFloat inUint outUint
        = Inr (\<exists>a b. inFloat = Finite a \<and> outFloat = Finite b \<and> \<bar>a - b\<bar> < 0.1)"
  using assms
  by (cases precision') (simp_all add: compareTransformFeedbackOutput_isEqual_def fnumber_close)

lemma isEqual_integer:
  assumes "scalarType \<noteq> ''float''"
  shows "compareTransformFeedbackOutput_isEqual scalarType precision' inFloat outFloat inUint outUint
        = Inr (inUint = outUint)"
  using assms by (simp add: compareTransformFeedbackOutput_isEqual_def)

lemma getDataTypeScalarSize_of_scalarType:
  assumes "getDataTypeScalarType basicType = Inr s"
  shows "\<exists>n. getDataTypeScalarSize basicType = Inr n"
  using assms
  by (auto simp: getDataTypeScalarType_def getDataTypeScalarSize_def switch_def split: if_splits)

lemma component_isEqual:
  assumes "getDataTypeScalarType basicType = Inr s"
  shows "compareTransformFeedbackOutput_component
        (Attribute attrName (newTypeBasic basicType precision') attrOffset)
        inFloat outFloat inUint outUint
      = compareTransformFeedbackOutput_isEqual s precision' inFloat outFloat inUint outUint"
  using assms getDataTypeScalarSize_of_scalarType [OF assms]
  by (auto simp: compareTransformFeedbackOutput_component_def newTypeBasic_def)

section \<open>Facts about the indices of path components\<close>

lemma ComponentType_length_4: "ComponentType_length = 4"
  by (simp add: ComponentType_length_def ComponentType_keys_def)

lemma new_VarTypeComponent_index:
  "index (new_VarTypeComponent componentType i) = (if i = 0 then 4 else i)"
  by (simp add: new_VarTypeComponent_def ComponentType_length_4)

lemma new_VarTypeComponent_index_nonzero: "index (new_VarTypeComponent componentType i) \<noteq> 0"
  by (simp add: new_VarTypeComponent_index)

lemma findNext_child_index:
  assumes "findNext_child curType = Inr child"
  shows "index child = 4"
  using assms
  by (auto simp: findNext_child_def new_VarTypeComponent_index split: if_splits sum.splits)

lemma parseTypePath_subscript_index:
  assumes "parseTypePath_subscript curType ndx = Inr component"
  shows "index component = (if ndx = 0 then 4 else ndx)"
  using assms
  by (auto simp: parseTypePath_subscript_def new_VarTypeComponent_index split: if_splits sum.splits)

lemma parseTypePath_round_index:
  assumes "parseTypePath_round ty tokenizer path = Inr (tokenizer', component)"
  shows "index component \<noteq> 0"
proof -
  have "index component \<noteq> 0" if "parseTypePath_member curType tokenizer = Inr (tokenizer', component)"
    for curType
    using that
    by (auto simp: parseTypePath_member_def new_VarTypeComponent_index_nonzero
        split: sum.splits if_splits)
  moreover
  have "index component \<noteq> 0" if "parseTypePath_element curType tokenizer = Inr (tokenizer', component)"
    for curType
    using that
    by (auto simp: parseTypePath_element_def split: sum.splits if_splits
        dest!: parseTypePath_subscript_index)
  ultimately show ?thesis
    using assms by (auto simp: parseTypePath_round_def split: sum.splits if_splits)
qed

lemma parseTypePath_loop_index:
  assumes "parseTypePath_loop ty tokenizer path = Inr r" and "\<forall>c\<in>set path. index c \<noteq> 0"
  shows "\<forall>c\<in>set r. index c \<noteq> 0"
  using assms
proof (induction ty tokenizer path rule: parseTypePath_loop.induct)
  case (1 ty tokenizer path)
  show ?case
  proof (cases "getToken tokenizer = END")
    case True
    with "1.prems" show ?thesis
      by (simp add: parseTypePath_loop.simps)
  next
    case False
    with "1.prems"(1) obtain tokenizer' component where
      round: "parseTypePath_round ty tokenizer path = Inr (tokenizer', component)"
      and rest: "parseTypePath_loop ty tokenizer' (path @ [component]) = Inr r"
      by (subst (asm) parseTypePath_loop.simps) (auto split: sum.splits)
    from parseTypePath_round_index [OF round] "1.prems"(2)
    have "\<forall>c\<in>set (path @ [component]). index c \<noteq> 0"
      by simp
    with "1.IH" [OF False round refl rest] show ?thesis
      by simp
  qed
qed

lemma parseTypePath_index:
  assumes "parseTypePath nameWithPath ty = Inr path"
  shows "\<forall>c\<in>set path. index c \<noteq> 0"
  using assms parseTypePath_loop_index [of ty _ "[]" path]
  by (auto simp: parseTypePath_def split: sum.splits if_splits)

section \<open>Facts about hasArraysInTFVaryings\<close>

lemma findAttributeNameEquals_None:
  "findAttributeNameEquals array name' = None \<longleftrightarrow> name' \<notin> Varying_name ` set array"
  by (induction array) auto

lemma findAttributeNameEquals_map:
  assumes "\<And>v. Varying_name (f v) = Varying_name v"
  shows "(findAttributeNameEquals (map f array) name' = None)
    = (findAttributeNameEquals array name' = None)"
  using assms by (induction array) auto

lemma hasArraysInTFVaryings_loop_true:
  "hasArraysInTFVaryings_loop spec tfs = Inr True \<longleftrightarrow>
     (\<exists>pre tfVar post. tfs = pre @ tfVar # post
        \<and> (\<forall>p\<in>set pre. \<exists>n. parseVariableName p = Inr n)
        \<and> (\<exists>v\<in>set (getVaryings spec). parseVariableName tfVar = Inr (Varying_name v)))"
proof (induction tfs)
  case Nil
  show ?case by simp
next
  case (Cons t tfs)
  show ?case
  proof (cases "parseVariableName t")
    case (Inl e)
    have "\<not> (\<exists>pre tfVar post. t # tfs = pre @ tfVar # post
        \<and> (\<forall>p\<in>set pre. \<exists>n. parseVariableName p = Inr n)
        \<and> (\<exists>v\<in>set (getVaryings spec). parseVariableName tfVar = Inr (Varying_name v)))"
    proof
      assume "\<exists>pre tfVar post. t # tfs = pre @ tfVar # post
        \<and> (\<forall>p\<in>set pre. \<exists>n. parseVariableName p = Inr n)
        \<and> (\<exists>v\<in>set (getVaryings spec). parseVariableName tfVar = Inr (Varying_name v))"
      then obtain pre tfVar post where d: "t # tfs = pre @ tfVar # post"
        and p: "\<forall>p\<in>set pre. \<exists>n. parseVariableName p = Inr n"
        and m: "\<exists>v\<in>set (getVaryings spec). parseVariableName tfVar = Inr (Varying_name v)"
        by blast
      from d have "t = tfVar \<or> t \<in> set pre"
        by (cases pre) auto
      with p m Inl show False
        by auto
    qed
    with Inl show ?thesis
      by simp
  next
    case (Inr varName)
    show ?thesis
    proof (cases "findAttributeNameEquals (getVaryings spec) varName = None")
      case False
      then have "\<exists>v\<in>set (getVaryings spec). parseVariableName t = Inr (Varying_name v)"
        using Inr by (auto simp: findAttributeNameEquals_None)
      then have "\<exists>pre tfVar post. t # tfs = pre @ tfVar # post
        \<and> (\<forall>p\<in>set pre. \<exists>n. parseVariableName p = Inr n)
        \<and> (\<exists>v\<in>set (getVaryings spec). parseVariableName tfVar = Inr (Varying_name v))"
        by (intro exI [of _ "[]"] exI [of _ t] exI [of _ tfs]) simp
      with Inr False show ?thesis
        by simp
    next
      case True
      then have nomatch: "\<not> (\<exists>v\<in>set (getVaryings spec). parseVariableName t = Inr (Varying_name v))"
        using Inr by (auto simp: findAttributeNameEquals_None)
      have "(\<exists>pre tfVar post. t # tfs = pre @ tfVar # post
          \<and> (\<forall>p\<in>set pre. \<exists>n. parseVariableName p = Inr n)
          \<and> (\<exists>v\<in>set (getVaryings spec). parseVariableName tfVar = Inr (Varying_name v)))
        \<longleftrightarrow> (\<exists>pre tfVar post. tfs = pre @ tfVar # post
          \<and> (\<forall>p\<in>set pre. \<exists>n. parseVariableName p = Inr n)
          \<and> (\<exists>v\<in>set (getVaryings spec). parseVariableName tfVar = Inr (Varying_name v)))"
        (is "?L \<longleftrightarrow> ?R")
      proof
        assume ?L
        then obtain pre tfVar post where d: "t # tfs = pre @ tfVar # post"
          and p: "\<forall>p\<in>set pre. \<exists>n. parseVariableName p = Inr n"
          and m: "\<exists>v\<in>set (getVaryings spec). parseVariableName tfVar = Inr (Varying_name v)"
          by blast
        from d m nomatch obtain pre' where "pre = t # pre'" "tfs = pre' @ tfVar # post"
          by (cases pre) auto
        with p m show ?R
          by auto
      next
        assume ?R
        then obtain pre tfVar post where d: "tfs = pre @ tfVar # post"
          and p: "\<forall>p\<in>set pre. \<exists>n. parseVariableName p = Inr n"
          and m: "\<exists>v\<in>set (getVaryings spec). parseVariableName tfVar = Inr (Varying_name v)"
          by blast
        from d p m Inr show ?L
          by (intro exI [of _ "t # pre"] exI [of _ tfVar] exI [of _ post]) simp
      qed
      with Inr True Cons.IH show ?thesis
        by simp
    qed
  qed
qed

lemma hasArraysInTFVaryings_loop_false:
  "hasArraysInTFVaryings_loop spec tfs = Inr False \<longleftrightarrow>
     (\<forall>tfVar\<in>set tfs. \<exists>n. parseVariableName tfVar = Inr n
        \<and> n \<notin> Varying_name ` set (getVaryings spec))"
  by (induction tfs) (auto simp: findAttributeNameEquals_None split: sum.splits)

lemma hasArraysInTFVaryings_loop_types:
  assumes "map Varying_name (getVaryings spec') = map Varying_name (getVaryings spec)"
  shows "hasArraysInTFVaryings_loop spec' tfs = hasArraysInTFVaryings_loop spec tfs"
proof -
  from assms have "Varying_name ` set (getVaryings spec') = Varying_name ` set (getVaryings spec)"
    by (metis set_map)
  then have "(findAttributeNameEquals (getVaryings spec') n = None)
      = (findAttributeNameEquals (getVaryings spec) n = None)" for n
    by (simp add: findAttributeNameEquals_None)
  then show ?thesis
    by (induction tfs) (simp_all split: sum.splits)
qed

lemma parseVariableName_error:
  assumes "parseVariableName tfVar = Inl e"
  shows "e = UnexpectedCharacter \<or> e = NotAnIdentifier"
  using assms
  by (auto simp: parseVariableName_def new_VarTokenizer_def advance_def Let_def
      split: sum.splits if_splits)

lemma hasArraysInTFVaryings_loop_error:
  assumes "hasArraysInTFVaryings_loop spec tfs = Inl e"
  shows "e = UnexpectedCharacter \<or> e = NotAnIdentifier"
  using assms
  by (induction tfs) (auto split: sum.splits if_splits dest: parseVariableName_error)

section \<open>The claims\<close>

text \<open>
  C1. For every root VarType and every path, getVarType(root, path) throws if and only
  if isValidTypePath(root, path) does not hold, so that resolving and validating never
  disagree: getVarType throws exactly when isValidTypePath does not return true; when
  isValidTypePath returns false getVarType throws \<^verbatim>\<open>Type is invalid\<close>; when
  isValidTypePath itself throws, which it does only with \<^verbatim>\<open>Not a matrix or a vector\<close>,
  getVarType throws the same error; and when every component of the path has a type,
  isValidTypePath does not throw, and getVarType throws if and only if isValidTypePath
  returns false. When the path is valid and ends in a matrix column step, the path
  before that step resolves to a basic matrix type and the result is a fresh basic type,
  the float vector of the matrix's row count with the matrix's precision; when it ends
  in a vector component step, the path before that step resolves to a basic vector type
  and the result is the vector's scalar type with the same precision.
\<close>

theorem C1_getVarType_agrees:
  "(isl (getVarType rootType path) \<longleftrightarrow> isValidTypePath rootType path \<noteq> Inr True)
   \<and> ((\<forall>c\<in>set path. type c \<noteq> None) \<longrightarrow>
        (isl (getVarType rootType path) \<longleftrightarrow> isValidTypePath rootType path = Inr False))
   \<and> (isValidTypePath rootType path = Inr False \<longrightarrow> getVarType rootType path = Inl TypeIsInvalid)
   \<and> (\<forall>e. isValidTypePath rootType path = Inl e \<longrightarrow>
          e = NotAMatrixOrAVector \<and> getVarType rootType path = Inl e)
   \<and> (isValidTypePath rootType (pre @ [c]) = Inr True \<and> type c = Some MATRIX_COLUMN \<longrightarrow>
        (\<exists>m prec rows. getVarType rootType pre = Inr (VarTypeBasic m prec)
           \<and> isDataTypeMatrix m \<and> getDataTypeMatrixNumRows m = Inr rows
           \<and> getVarType rootType (pre @ [c]) = Inr (newTypeBasic (getDataTypeFloatVec rows) prec)))
   \<and> (isValidTypePath rootType (pre @ [c]) = Inr True \<and> type c = Some VECTOR_COMPONENT \<longrightarrow>
        (\<exists>v prec s. getVarType rootType pre = Inr (VarTypeBasic v prec)
           \<and> isDataTypeVector v \<and> getDataTypeScalarTypeAsDataType v = Inr s
           \<and> getVarType rootType (pre @ [c]) = Inr (newTypeBasic s prec)))"
proof (intro conjI allI impI)
  show "isl (getVarType rootType path) \<longleftrightarrow> isValidTypePath rootType path \<noteq> Inr True"
    by (rule getVarType_throws_iff)
next
  assume "\<forall>c\<in>set path. type c \<noteq> None"
  then have "\<not> isl (isValidTypePath rootType path)"
    by (rule isValidTypePath_typed_no_throw)
  then show "isl (getVarType rootType path) \<longleftrightarrow> isValidTypePath rootType path = Inr False"
    using getVarType_throws_iff [of rootType path]
    by (cases "isValidTypePath rootType path") auto
next
  assume "isValidTypePath rootType path = Inr False"
  then show "getVarType rootType path = Inl TypeIsInvalid"
    by (simp add: getVarType_def)
next
  fix e
  assume e: "isValidTypePath rootType path = Inl e"
  then show "e = NotAMatrixOrAVector"
    by (rule isValidTypePath_error)
  from e show "getVarType rootType path = Inl e"
    by (simp add: getVarType_def)
next
  assume "isValidTypePath rootType (pre @ [c]) = Inr True \<and> type c = Some MATRIX_COLUMN"
  then show "\<exists>m prec rows. getVarType rootType pre = Inr (VarTypeBasic m prec)
           \<and> isDataTypeMatrix m \<and> getDataTypeMatrixNumRows m = Inr rows
           \<and> getVarType rootType (pre @ [c]) = Inr (newTypeBasic (getDataTypeFloatVec rows) prec)"
    using getVarType_ends_in_column by blast
next
  assume "isValidTypePath rootType (pre @ [c]) = Inr True \<and> type c = Some VECTOR_COMPONENT"
  then show "\<exists>v prec s. getVarType rootType pre = Inr (VarTypeBasic v prec)
           \<and> isDataTypeVector v \<and> getDataTypeScalarTypeAsDataType v = Inr s
           \<and> getVarType rootType (pre @ [c]) = Inr (newTypeBasic s prec)"
    using getVarType_ends_in_component by blast
qed

theorem C1_getVarType_agrees_witness:
  "isValidTypePath (newTypeBasic FLOAT_MAT2X3 PRECISION_MEDIUMP)
     ([] @ [new_VarTypeComponent MATRIX_COLUMN 1]) = Inr True
   \<and> type (new_VarTypeComponent MATRIX_COLUMN 1) = Some MATRIX_COLUMN
   \<and> getVarType (newTypeBasic FLOAT_MAT2X3 PRECISION_MEDIUMP) [new_VarTypeComponent MATRIX_COLUMN 1]
       = Inr (newTypeBasic FLOAT_VEC3 PRECISION_MEDIUMP)
   \<and> isValidTypePath (newTypeBasic FLOAT_MAT2X3 PRECISION_MEDIUMP)
       ([new_VarTypeComponent MATRIX_COLUMN 1] @ [new_VarTypeComponent VECTOR_COMPONENT 2]) = Inr True
   \<and> getVarType (newTypeBasic FLOAT_MAT2X3 PRECISION_MEDIUMP)
       [new_VarTypeComponent MATRIX_COLUMN 1, new_VarTypeComponent VECTOR_COMPONENT 2]
       = Inr (newTypeBasic FLOAT PRECISION_MEDIUMP)
   \<and> type (new_VarTypeComponent VECTOR_COMPONENT 2) \<noteq> None
   \<and> isl (getVarType (newTypeBasic FLOAT PRECISION_MEDIUMP)
       [new_VarTypeComponent VECTOR_COMPONENT 2])
   \<and> isValidTypePath (newTypeBasic FLOAT PRECISION_MEDIUMP)
       [new_VarTypeComponent VECTOR_COMPONENT 2] = Inr False
   \<and> getVarType (newTypeBasic FLOAT PRECISION_MEDIUMP)
       [new_VarTypeComponent VECTOR_COMPONENT 2] = Inl TypeIsInvalid"
proof -
  let ?m = "newTypeBasic FLOAT_MAT2X3 PRECISION_MEDIUMP"
  let ?c = "new_VarTypeComponent MATRIX_COLUMN 1"
  let ?v = "new_VarTypeComponent VECTOR_COMPONENT 2"
  have col: "isValidTypePath ?m ([] @ [?c]) = Inr True \<and> type ?c = Some MATRIX_COLUMN"
    by (simp add: isValidTypePath_def isValidTypePath_basic_def isValidTypePath_vector_def
        new_VarTypeComponent_def newTypeBasic_def isDataTypeMatrix_def
        getDataTypeMatrixNumRows_def switch_def)
  have comp: "isValidTypePath ?m ([?c] @ [?v]) = Inr True \<and> type ?v = Some VECTOR_COMPONENT"
    by (simp add: isValidTypePath_def isValidTypePath_basic_def isValidTypePath_vector_def
        new_VarTypeComponent_def newTypeBasic_def isDataTypeMatrix_def isDataTypeVector_def
        getDataTypeMatrixNumRows_def getDataTypeScalarTypeAsDataType_def switch_def
        getDataTypeFloatVec_def getDataTypeVector_def)
  have inv: "isValidTypePath (newTypeBasic FLOAT PRECISION_MEDIUMP) [?v] = Inr False"
    by (simp add: isValidTypePath_def isValidTypePath_basic_def isValidTypePath_vector_def
        new_VarTypeComponent_def newTypeBasic_def isDataTypeVector_def)
  have r0: "getVarType ?m [] = Inr (VarTypeBasic FLOAT_MAT2X3 PRECISION_MEDIUMP)"
    by (simp add: getVarType_def isValidTypePath_def newTypeBasic_def)
  have rows: "getDataTypeMatrixNumRows FLOAT_MAT2X3 = Inr 3"
    by (simp add: getDataTypeMatrixNumRows_def switch_def)
  have vec: "getDataTypeFloatVec 3 = FLOAT_VEC3"
    by (simp add: getDataTypeFloatVec_def getDataTypeVector_def)
  have sc: "getDataTypeScalarTypeAsDataType FLOAT_VEC3 = Inr FLOAT"
    by (simp add: getDataTypeScalarTypeAsDataType_def switch_def)
  from C1_getVarType_agrees [of ?m "[?c]" "[]" ?c] col
  obtain m prec rows' where
    "getVarType ?m [] = Inr (VarTypeBasic m prec)"
    "getDataTypeMatrixNumRows m = Inr rows'"
    "getVarType ?m ([] @ [?c]) = Inr (newTypeBasic (getDataTypeFloatVec rows') prec)"
    by blast
  with r0 rows vec
  have r1: "getVarType ?m [?c] = Inr (newTypeBasic FLOAT_VEC3 PRECISION_MEDIUMP)"
    by auto
  from C1_getVarType_agrees [of ?m "[?c, ?v]" "[?c]" ?v] comp
  obtain v prec' s where
    "getVarType ?m [?c] = Inr (VarTypeBasic v prec')"
    "getDataTypeScalarTypeAsDataType v = Inr s"
    "getVarType ?m ([?c] @ [?v]) = Inr (newTypeBasic s prec')"
    by blast
  with r1 sc
  have r2: "getVarType ?m [?c, ?v] = Inr (newTypeBasic FLOAT PRECISION_MEDIUMP)"
    by (auto simp: newTypeBasic_def)
  have typed: "type ?v \<noteq> None"
    by (simp add: new_VarTypeComponent_def)
  from C1_getVarType_agrees [of "newTypeBasic FLOAT PRECISION_MEDIUMP" "[?v]" "[]" ?v] inv
  have r3: "getVarType (newTypeBasic FLOAT PRECISION_MEDIUMP) [?v] = Inl TypeIsInvalid"
    by simp
  from C1_getVarType_agrees [of "newTypeBasic FLOAT PRECISION_MEDIUMP" "[?v]" "[]" ?v] inv typed
  have r4: "isl (getVarType (newTypeBasic FLOAT PRECISION_MEDIUMP) [?v])"
    by simp
  show ?thesis
    using col comp inv typed r1 r2 r3 r4 by simp
qed

text \<open>
  C2. For every VarType and every terminal path enumerated by VectorTypeIterator over
  that type, isValidTypePath(type, path) is true, and rendering the path to text
  (TypeAccessFormat.toString after a root identifier) and parsing that text again with
  parseTypePath against the same type gives a path whose components are
  \<^verbatim>\<open>is()\<close>-equivalent to the original, element by element.

  The code does not do this. For a highp \<^verbatim>\<open>mat2\<close> the iterator enumerates one path, the
  matrix column with index 4: \<^verbatim>\<open>findNext\<close> pushes \<^verbatim>\<open>new VarTypeComponent(MATRIX_COLUMN, 0)\<close>
  and the constructor turns index 0 into 4. isValidTypePath does not check column
  indices and accepts it; its text is \<^verbatim>\<open>[4]\<close>; parseTypePath does check the column index
  and throws on \<^verbatim>\<open>v[4]\<close>. For \<^verbatim>\<open>float[3]\<close> the iterator's constructor throws
  \<^verbatim>\<open>Type is invalid\<close> and no path is enumerated at all.
\<close>

theorem C2_round_trip_mat2:
  "VectorTypeIterator_paths 20 (newTypeBasic FLOAT_MAT2 PRECISION_HIGHP)
     = Some (Inr [[\<lparr>type = Some MATRIX_COLUMN, index = 4\<rparr>]])
   \<and> isValidTypePath (newTypeBasic FLOAT_MAT2 PRECISION_HIGHP)
       [\<lparr>type = Some MATRIX_COLUMN, index = 4\<rparr>] = Inr True
   \<and> TypeAccessFormat_toString (newTypeBasic FLOAT_MAT2 PRECISION_HIGHP)
       [\<lparr>type = Some MATRIX_COLUMN, index = 4\<rparr>] = Inr ''[4]''
   \<and> parseTypePath (''v'' @ ''[4]'') (newTypeBasic FLOAT_MAT2 PRECISION_HIGHP) = Inl EmptyError
   \<and> VectorTypeIterator_paths 20 (newTypeArray (newTypeBasic FLOAT PRECISION_HIGHP) 3)
       = Some (Inl TypeIsInvalid)"
  by (simp add: path_eval iterator_eval parser_eval numeral_nat)





text \<open>
  C5. For the elemCount4 script (one draw call of 4 vertices, capture enabled) under
  TRIANGLES, getTransformFeedbackOutputCount gives 3 and the expected written-primitives
  count, computeTransformFeedbackPrimitiveCount over the script, gives 1.

  The output count is 3. The primitive count the code computes is 4 - 4/3 = 8/3, not 1.
\<close>

theorem C5_elemCount4:
  "map_of testCases ''elemCount4'' = Some [dc 4 True]
   \<and> getTransformFeedbackOutputCount TRIANGLES 4 = Inr 3
   \<and> computeTransformFeedbackPrimitiveCount TRIANGLES [dc 4 True] = Inr (8 / 3)
   \<and> computeTransformFeedbackPrimitiveCount TRIANGLES [dc 4 True] \<noteq> Inr 1"
  by (simp add: testCases_def dc_def computeTransformFeedbackPrimitiveCount_def
      js_rem_def js_trunc_def)

text \<open>
  C6. When the currently resolved type is an unsized array, parseTypePath accepts
  \<^verbatim>\<open>[n]\<close> for every non-negative n and appends an array element component with index n.

  The code does not do this. parseTypePath checks \<^verbatim>\<open>inBounds(ndx, 0, getArraySize())\<close> for
  every array, and the size of an unsized array is \<^verbatim>\<open>UNSIZED_ARRAY = -1\<close>: the check fails
  for every index, for every element type. isValidTypePath, in the same file, exempts
  unsized arrays from the check and accepts the component that parseTypePath refuses.
\<close>

theorem C6_unsized_array_subscript:
  "parseTypePath_subscript (newTypeArray elementType UNSIZED_ARRAY) n = Inl EmptyError
   \<and> parseTypePath ''v[2]'' (newTypeArray (newTypeBasic FLOAT PRECISION_HIGHP) UNSIZED_ARRAY)
       = Inl EmptyError
   \<and> isValidTypePath (newTypeArray (newTypeBasic FLOAT PRECISION_HIGHP) UNSIZED_ARRAY)
       [\<lparr>type = Some ARRAY_ELEMENT, index = 2\<rparr>] = Inr True"
  by (simp add: path_eval parser_eval)

text \<open>
  C7. For every varying list and usePointSize flag, computeInputLayout pushes
  \<^verbatim>\<open>a_position\<close> (highp vec4) at offset 0 with 16 bytes, then \<^verbatim>\<open>a_pointSize\<close> (highp
  float) with 4 bytes if usePointSize, then one attribute for each vector-level terminal
  sub-path of each varying, each advancing the offset by four bytes for each scalar; the
  offsets are strictly increasing and 4-byte aligned and the stride returned is the sum
  of the sizes.

  The code does not do this for a matrix or an array. A highp \<^verbatim>\<open>mat2\<close> has two columns,
  but the layout gets a single attribute for it, \<^verbatim>\<open>a_var_c4\<close>, a vec2, and the stride is
  24 where position and two columns take 32. For \<^verbatim>\<open>float[3]\<close> computeInputLayout pushes
  \<^verbatim>\<open>a_position\<close> and \<^verbatim>\<open>a_pointSize\<close> and then throws \<^verbatim>\<open>Type is invalid\<close>: it returns no
  stride.
\<close>

theorem C7_layout_mat2:
  "computeInputLayout 20 [] [Varying ''v_var'' (newTypeBasic FLOAT_MAT2 PRECISION_HIGHP) SMOOTH] False
     = Some ([Attribute ''a_position'' (newTypeBasic FLOAT_VEC4 PRECISION_HIGHP) 0,
              Attribute ''a_var_c4'' (newTypeBasic FLOAT_VEC2 PRECISION_HIGHP) 16],
             Inr 24)
   \<and> computeInputLayout 20 []
       [Varying ''v_var'' (newTypeArray (newTypeBasic FLOAT PRECISION_HIGHP) 3) SMOOTH] True
     = Some ([Attribute ''a_position'' (newTypeBasic FLOAT_VEC4 PRECISION_HIGHP) 0,
              Attribute ''a_pointSize'' (newTypeBasic FLOAT PRECISION_HIGHP) 16],
             Inl TypeIsInvalid)"
  by (simp add: computeInputLayout_def getAttributeName_def path_eval iterator_eval
      number_toString_def string_of_nat.simps numeral_nat)

text \<open>
  C8. In compareTransformFeedbackOutput a component of float scalar type passes if and
  only if the absolute difference of the input value and the captured output value is
  strictly less than 0.1, for each of the precisions lowp, mediump and highp; a
  component of int or uint scalar type passes if and only if the two 32-bit values are
  equal. This holds for the comparison as such, and for the comparison of a component of
  an attribute whose basic type has that scalar type. A value that is not finite has no
  difference less than 0.1 to anything.
\<close>

theorem C8_component_comparison:
  "(precision' \<noteq> PRECISION_LAST \<longrightarrow>
      compareTransformFeedbackOutput_isEqual ''float'' precision' inFloat outFloat inUint outUint
        = Inr (\<exists>a b. inFloat = Finite a \<and> outFloat = Finite b \<and> \<bar>a - b\<bar> < 0.1))
   \<and> (scalarType = ''int'' \<or> scalarType = ''uint'' \<longrightarrow>
      compareTransformFeedbackOutput_isEqual scalarType precision' inFloat outFloat inUint outUint
        = Inr (inUint = outUint))
   \<and> (getDataTypeScalarType basicType = Inr ''float'' \<and> precision' \<noteq> PRECISION_LAST \<longrightarrow>
      compareTransformFeedbackOutput_component
        (Attribute attrName (newTypeBasic basicType precision') attrOffset)
        inFloat outFloat inUint outUint
        = Inr (\<exists>a b. inFloat = Finite a \<and> outFloat = Finite b \<and> \<bar>a - b\<bar> < 0.1))
   \<and> (getDataTypeScalarType basicType = Inr ''int'' \<or> getDataTypeScalarType basicType = Inr ''uint'' \<longrightarrow>
      compareTransformFeedbackOutput_component
        (Attribute attrName (newTypeBasic basicType precision') attrOffset)
        inFloat outFloat inUint outUint
        = Inr (inUint = outUint))"
  by (auto simp: isEqual_float isEqual_integer component_isEqual)

theorem C8_component_comparison_witness:
  "PRECISION_LOWP \<noteq> PRECISION_LAST
   \<and> compareTransformFeedbackOutput_isEqual ''float'' PRECISION_LOWP
        (Finite 1) (Finite 1.05) 7 8 = Inr True
   \<and> getDataTypeScalarType INT_VEC2 = Inr ''int''
   \<and> compareTransformFeedbackOutput_component
        (Attribute ''a_var'' (newTypeBasic INT_VEC2 PRECISION_LOWP) 16)
        (Finite 1) (Finite 1.05) 7 8 = Inr False"
proof -
  have close: "\<exists>a b. Finite 1 = Finite a \<and> Finite 1.05 = Finite b \<and> \<bar>a - b\<bar> < (0.1 :: real)"
    by (intro exI [of _ 1] exI [of _ "1.05"]) simp
  have int: "getDataTypeScalarType INT_VEC2 = Inr ''int''"
    by (simp add: getDataTypeScalarType_def switch_def)
  have "(7 :: 32 word) \<noteq> 8"
    by simp
  with close int
    C8_component_comparison [of PRECISION_LOWP "Finite 1" "Finite 1.05" 7 8 "''int''" INT_VEC2 "''a_var''" 16]
  show ?thesis
    by simp
qed

text \<open>
  C9. Constructing a VarTypeComponent with index 0 gives a component whose index is
  \<^verbatim>\<open>ComponentType.length\<close>, which is 4, and constructing one with type \<^verbatim>\<open>STRUCT_MEMBER\<close>
  gives a component whose type is \<^verbatim>\<open>null\<close>. So the child component that the sub-type
  iterators push in \<^verbatim>\<open>findNext\<close> always has index 4; the component that parseTypePath
  makes of the subscript \<^verbatim>\<open>[0]\<close> has index 4; the component it makes of a member
  selection has type \<^verbatim>\<open>null\<close>, and index 4 when the member is the first of the struct; and no component of a path
  that parseTypePath returns has index 0.
\<close>

theorem C9_constructor_index_zero:
  "ComponentType_length = 4
   \<and> index (new_VarTypeComponent componentType 0) = ComponentType_length
   \<and> type (new_VarTypeComponent STRUCT_MEMBER i) = None
   \<and> (findNext_child curType = Inr child \<longrightarrow> index child = 4)
   \<and> (parseTypePath_subscript curType 0 = Inr component \<longrightarrow> index component = 4)
   \<and> (parseTypePath_member curType tokenizer = Inr (tokenizer', component') \<longrightarrow>
        (\<exists>tokenizer1 s. advance tokenizer = Inr tokenizer1 \<and> getStruct curType = Inr s
           \<and> type component' = None
           \<and> index component' =
               (if findMember (getIdentifier tokenizer1) (m_members s) = 0 then 4
                else findMember (getIdentifier tokenizer1) (m_members s))))
   \<and> (parseTypePath nameWithPath ty = Inr path \<longrightarrow> (\<forall>c\<in>set path. index c \<noteq> 0))"
proof (intro conjI impI)
  show "ComponentType_length = 4"
    by (rule ComponentType_length_4)
  show "index (new_VarTypeComponent componentType 0) = ComponentType_length"
    by (simp add: new_VarTypeComponent_def)
  show "type (new_VarTypeComponent STRUCT_MEMBER i) = None"
    by (simp add: new_VarTypeComponent_def)
  show "index child = 4" if "findNext_child curType = Inr child"
    using that by (rule findNext_child_index)
  show "index component = 4" if "parseTypePath_subscript curType 0 = Inr component"
    using parseTypePath_subscript_index [OF that] by simp
  show "\<exists>tokenizer1 s. advance tokenizer = Inr tokenizer1 \<and> getStruct curType = Inr s
           \<and> type component' = None
           \<and> index component' =
               (if findMember (getIdentifier tokenizer1) (m_members s) = 0 then 4
                else findMember (getIdentifier tokenizer1) (m_members s))"
    if "parseTypePath_member curType tokenizer = Inr (tokenizer', component')"
  proof -
    from that obtain tokenizer1 s where parts: "advance tokenizer = Inr tokenizer1"
      "getStruct curType = Inr s"
      "component' = new_VarTypeComponent STRUCT_MEMBER
         (findMember (getIdentifier tokenizer1) (m_members s))"
      by (auto simp: parseTypePath_member_def split: sum.splits if_splits)
    from parts(3) have "type component' = None
      \<and> index component' =
          (if findMember (getIdentifier tokenizer1) (m_members s) = 0 then 4
           else findMember (getIdentifier tokenizer1) (m_members s))"
      by (simp add: new_VarTypeComponent_def ComponentType_length_4)
    with parts(1,2) show ?thesis
      by blast
  qed
  show "\<forall>c\<in>set path. index c \<noteq> 0" if "parseTypePath nameWithPath ty = Inr path"
    using that by (rule parseTypePath_index)
qed

theorem C9_constructor_index_zero_witness:
  "findNext_child (newTypeBasic FLOAT_MAT2 PRECISION_HIGHP)
     = Inr \<lparr>type = Some MATRIX_COLUMN, index = 4\<rparr>
   \<and> parseTypePath_subscript (newTypeArray (newTypeBasic FLOAT PRECISION_HIGHP) 3) 0
     = Inr \<lparr>type = Some ARRAY_ELEMENT, index = 4\<rparr>
   \<and> parseTypePath_member
       (newTypeStruct (StructType ''S'' [StructMember ''a'' (newTypeBasic FLOAT PRECISION_HIGHP)]))
       \<lparr>m_str = ''v.a'', m_token = PERIOD, m_tokenStart = 1, m_tokenLen = 1\<rparr>
     = Inr (\<lparr>m_str = ''v.a'', m_token = END, m_tokenStart = 3, m_tokenLen = 1\<rparr>,
            \<lparr>type = None, index = 4\<rparr>)
   \<and> parseTypePath ''v.a''
       (newTypeStruct (StructType ''S'' [StructMember ''a'' (newTypeBasic FLOAT PRECISION_HIGHP)]))
     = Inr [\<lparr>type = None, index = 4\<rparr>]
   \<and> parseTypePath ''v[0]'' (newTypeArray (newTypeBasic FLOAT PRECISION_HIGHP) 5)
     = Inr [\<lparr>type = Some ARRAY_ELEMENT, index = 4\<rparr>]"
proof -
  let ?S = "newTypeStruct (StructType ''S'' [StructMember ''a'' (newTypeBasic FLOAT PRECISION_HIGHP)])"
  let ?t = "\<lparr>m_str = ''v.a'', m_token = PERIOD, m_tokenStart = 1, m_tokenLen = 1\<rparr>"
  have child: "findNext_child (newTypeBasic FLOAT_MAT2 PRECISION_HIGHP)
      = Inr \<lparr>type = Some MATRIX_COLUMN, index = 4\<rparr>"
    by (simp add: path_eval iterator_eval)
  have subscript: "parseTypePath_subscript (newTypeArray (newTypeBasic FLOAT PRECISION_HIGHP) 3) 0
      = Inr \<lparr>type = Some ARRAY_ELEMENT, index = 4\<rparr>"
    by (simp add: path_eval parser_eval)
  have member: "parseTypePath_member ?S ?t
      = Inr (\<lparr>m_str = ''v.a'', m_token = END, m_tokenStart = 3, m_tokenLen = 1\<rparr>,
             \<lparr>type = None, index = 4\<rparr>)"
    by (simp add: path_eval parser_eval)
  have parse1: "parseTypePath ''v.a'' ?S = Inr [\<lparr>type = None, index = 4\<rparr>]"
    by (simp add: path_eval parser_eval)
  have parse2: "parseTypePath ''v[0]'' (newTypeArray (newTypeBasic FLOAT PRECISION_HIGHP) 5)
      = Inr [\<lparr>type = Some ARRAY_ELEMENT, index = 4\<rparr>]"
    by (simp add: path_eval parser_eval)
  from child subscript member parse1 parse2
    C9_constructor_index_zero [of _ _ "newTypeBasic FLOAT_MAT2 PRECISION_HIGHP"
      "\<lparr>type = Some MATRIX_COLUMN, index = 4\<rparr>"]
  show ?thesis
    by simp
qed

text \<open>
  C10. hasArraysInTFVaryings(spec) returns true if and only if the leading identifier of
  some captured string is the name of a declared varying, whatever the type of that
  varying; so \<^verbatim>\<open>init\<close> selects \<^verbatim>\<open>Capturing arrays is not supported\<close> for any link failure
  where a captured name matches a declared varying name.

  hasArraysInTFVaryings does return true for a captured \<^verbatim>\<open>v_a\<close> that names a declared
  float. But \<^verbatim>\<open>init\<close> never selects the classification. It classifies inside
  \<^verbatim>\<open>if (!this.m_program.isOk())\<close>, and \<^verbatim>\<open>isOk()\<close> returns \<^verbatim>\<open>shadersOK\<close>: for a program
  whose shaders compile and whose link fails the test is false and \<^verbatim>\<open>init\<close> throws
  nothing there; inside the test \<^verbatim>\<open>shadersOK\<close> is false, so \<^verbatim>\<open>linkFail\<close> is false and
  the error is \<^verbatim>\<open>Compile failed\<close>, for every program, outcome of isProgramSupported and
  spec.
\<close>

theorem C10_init_link_failure:
  "hasArraysInTFVaryings
     \<lparr>m_structs = [],
      m_varyings = [Varying ''v_a'' (newTypeBasic FLOAT PRECISION_HIGHP) SMOOTH],
      m_transformFeedbackVaryings = [''v_a'']\<rparr> = Inr True
   \<and> isOk \<lparr>shadersOK = True, linkOk = False\<rparr> = True
   \<and> init_classify \<lparr>shadersOK = True, linkOk = False\<rparr> (Inr True)
       \<lparr>m_structs = [],
        m_varyings = [Varying ''v_a'' (newTypeBasic FLOAT PRECISION_HIGHP) SMOOTH],
        m_transformFeedbackVaryings = [''v_a'']\<rparr> = Inr ()
   \<and> init_classify m_program supported spec
       = (if shadersOK m_program then Inr () else Inl CompileFailed)"
  by (simp add: hasArraysInTFVaryings_def getTransformFeedbackVaryings_def getVaryings_def
      init_classify_def isOk_def parser_eval Let_def)

end
